theory Spec2Isabelle
  imports Main
begin

section \<open>The chat session of \<open>packages/core/solid/use-chat.ts\<close>\<close>

text \<open>
  The file defines \<open>useChat\<close>: a conversation kept in a keyed store, a request
  (\<open>triggerRequest\<close>) that writes the submitted list into the store, posts it, and
  rewrites the store once per chunk of the streamed answer, and the operations
  \<open>append\<close>, \<open>reload\<close>, \<open>stop\<close> and \<open>setMessages\<close> around it.

  The embedding is state passing. The mutable variables of one \<open>useChat\<close> instance
  (the store entry of its key, the error and loading signals, \<open>abortController\<close>)
  are the fields of the record \<open>chat\<close>. Everything the request awaits is an input:
  how \<open>fetch\<close> settles, what the hooks do, what each \<open>reader.read()\<close> delivers,
  and where a call of \<open>stop()\<close> falls between them. A thrown JavaScript value is a
  value of type \<open>thrown\<close>, and a block that can throw returns a \<open>completion\<close>.
  The scope is one request and, beside it, calls of \<open>stop()\<close>: a second request or
  a \<open>setMessages\<close> running between the awaits of the first is not modelled.
\<close>

subsection \<open>Messages\<close>

datatype role = System | User | Assistant

text \<open>
  A \<open>Date\<close> is kept as its ISO text, which is also what \<open>JSON.stringify\<close> emits
  for it.
\<close>

type_synonym timestamp = string

text \<open>
  Modelled from the spec: the type \<open>Message\<close> is declared in \<open>../shared/types\<close>,
  which is not among the sources; the spec gives it as
  \<open>{ id: string, createdAt: timestamp, role: enum{user, assistant, system}, content: string }\<close>.
  The field \<open>id\<close> is called \<open>message_id\<close> here.
\<close>

record message =
  message_id :: string
  createdAt :: timestamp
  content :: string
  role :: role

text \<open>
  The argument of \<open>append\<close> (\<open>Message | CreateMessage\<close>): a message whose \<open>id\<close>
  may be missing.
\<close>

record create_message =
  cm_id :: "string option"
  cm_createdAt :: timestamp
  cm_content :: string
  cm_role :: role

subsection \<open>Thrown values, completions and promises\<close>

text \<open>
  A thrown value is \<open>null\<close> or \<open>undefined\<close> (\<open>Nullish\<close>), or a value that has
  properties: whether it is an \<open>instanceof Error\<close>, its \<open>name\<close> and its
  \<open>message\<close>. What \<open>fetch\<close>, \<open>res.text()\<close> and \<open>reader.read()\<close> reject with
  and what \<open>new Error\<close> builds is of the second kind; a hook, which is the caller's
  code, can throw either.
\<close>

datatype thrown_object =
  ThrownObject (instanceof_Error: bool) (err_name: string) (err_message: string)

datatype thrown = Object thrown_object | Nullish

definition Error :: "string \<Rightarrow> thrown_object" where
  "Error msg = ThrownObject True ''Error'' msg"

text \<open>
  The \<open>TypeError\<close> of reading the property \<open>name\<close> of \<open>null\<close> or
  \<open>undefined\<close>; the wording of its message is the engine's.
\<close>

definition name_of_nullish :: thrown_object where
  "name_of_nullish =
     ThrownObject True ''TypeError'' ''Cannot read properties of undefined (reading name)''"

datatype hook_result = HookReturns | HookThrows thrown

text \<open>
  How a block ends: it returns a value, it throws, or it is still waiting for a
  promise that the given inputs never settle.
\<close>

datatype 'a completion = Returns 'a | Throws thrown | Awaits

text \<open>The value and the state of the promise of \<open>triggerRequest\<close>.\<close>

datatype reply = Text string | Null | Undefined

datatype promise = Unsettled | Fulfilled reply | Rejected thrown

subsection \<open>JSON objects and the request\<close>

datatype json =
    JNull
  | JBool bool
  | JNum int
  | JStr string
  | JArr "json list"
  | JObj "(string \<times> json) list"

text \<open>
  An object is the list of its properties in insertion order. Assigning a key that
  is present replaces its value in place, a new key goes last; a spread
  \<open>{...a, ...b}\<close> assigns the properties of \<open>b\<close> in order.
\<close>

fun assign :: "string \<Rightarrow> 'v \<Rightarrow> (string \<times> 'v) list \<Rightarrow> (string \<times> 'v) list" where
  "assign k v [] = [(k, v)]"
| "assign k v ((k', v') # kvs) =
     (if k' = k then (k, v) # kvs else (k', v') # assign k v kvs)"

fun spread :: "(string \<times> 'v) list \<Rightarrow> (string \<times> 'v) list \<Rightarrow> (string \<times> 'v) list" where
  "spread obj [] = obj"
| "spread obj ((k, v) # kvs) = spread (assign k v obj) kvs"

fun lookup :: "(string \<times> 'v) list \<Rightarrow> string \<Rightarrow> 'v option" where
  "lookup [] k = None"
| "lookup ((k', v) # kvs) k = (if k' = k then Some v else lookup kvs k)"

fun keys :: "json \<Rightarrow> string list" where
  "keys (JObj kvs) = map fst kvs"
| "keys _ = []"

definition role_json :: "role \<Rightarrow> json" where
  "role_json r =
     JStr (case r of System \<Rightarrow> ''system'' | User \<Rightarrow> ''user'' | Assistant \<Rightarrow> ''assistant'')"

text \<open>\<open>({ role, content }) => ({ role, content })\<close>\<close>

definition role_content :: "message \<Rightarrow> json" where
  "role_content m = JObj [(''role'', role_json (role m)), (''content'', JStr (content m))]"

text \<open>
  The message object itself, with every field of \<open>Message\<close>, in the order of the
  type.
\<close>

definition message_json :: "message \<Rightarrow> json" where
  "message_json m =
     JObj [(''id'', JStr (message_id m)), (''createdAt'', JStr (createdAt m)),
           (''content'', JStr (content m)), (''role'', role_json (role m))]"

record request =
  url :: string
  http_method :: string
  req_body :: "(string \<times> json) list"
  req_headers :: "(string \<times> string) list"
  req_credentials :: "string option"

subsection \<open>The response and the stream\<close>

text \<open>
  What happens while the loop waits in \<open>reader.read()\<close>, in order: a read delivers a
  chunk, reports \<open>done\<close> or rejects, and \<open>stop()\<close> may be called in between
  (\<open>StopCalled\<close>). A list of such events that ends before the loop does leaves the
  request waiting.
\<close>

datatype 'c stream_event = StopCalled | ReadChunk 'c | ReadDone | ReadRejects thrown_object

datatype text_result = TextResolves string | TextRejects thrown_object

record 'c response =
  res_ok :: bool
  res_text :: text_result
  res_body :: "'c stream_event list option"

datatype 'c fetch_result = FetchRejects thrown_object | FetchResolves "'c response"

subsection \<open>The state of a session\<close>

text \<open>
  Modelled from the spec: the entry of \<open>chatApiStore\<close> (package \<open>swr-store\<close>, not
  among the sources) is the current list with a status tag
  \<open>{pending, success, error}\<close>; only an entry tagged \<open>success\<close> holds a list.
\<close>

datatype mutation_result = MutationPending | MutationSuccess "message list" | MutationError

datatype abort_controller = AbortController

text \<open>What the request does to the outside, in order.\<close>

datatype event =
    Mutated "message list"
  | Fetched request
  | Aborted
  | ReaderCancelled
  | OnResponseCalled
  | OnFinishCalled message
  | OnErrorCalled thrown_object

record chat =
  store :: "message list option"
  cache :: mutation_result
  error :: "thrown_object option"
  isLoading :: bool
  abortController :: "abort_controller option"
  log :: "event list"

subsection \<open>Options and inputs\<close>

text \<open>
  \<open>UseChatOptions\<close>, as far as \<open>triggerRequest\<close> reads them. A missing \<open>headers\<close>
  or \<open>body\<close> is the empty object, which spreads to the same result.
\<close>

record 'c use_chat_options =
  api :: string
  sendExtraMessageFields :: "bool option"
  onResponse :: "('c response \<Rightarrow> hook_result) option"
  onFinish :: "(message \<Rightarrow> hook_result) option"
  onError :: "(thrown_object \<Rightarrow> hook_result) option"
  credentials :: "string option"
  headers :: "(string \<times> string) list"
  body :: "(string \<times> json) list"

text \<open>\<open>RequestOptions\<close>; a missing \<open>options\<close> is the record of two empty objects.\<close>

record request_options =
  opt_headers :: "(string \<times> string) list"
  opt_body :: "(string \<times> json) list"

text \<open>
  The inputs of one request. \<open>createChunkDecoder\<close> and \<open>nanoid\<close> come from
  \<open>../shared/utils\<close>, which is not among the sources, and are taken as parameters:
  the decoder is a closure over hidden state, so the text it returns for a chunk is a
  function of the chunks it was given before and of that chunk.
\<close>

record 'c env =
  stop_during_fetch :: bool
  fetch_result :: "'c fetch_result"
  stop_during_onResponse :: bool
  stop_during_text :: bool
  new_Date :: timestamp
  nanoid :: string
  decoder :: "'c list \<Rightarrow> 'c \<Rightarrow> string"

subsection \<open>The operations\<close>

definition mutate :: "message list \<Rightarrow> chat \<Rightarrow> chat" where
  "mutate d s = s\<lparr>store := Some d, cache := MutationSuccess d, log := log s @ [Mutated d]\<rparr>"

definition stop :: "chat \<Rightarrow> chat" where
  "stop s =
     (case abortController s of
        None \<Rightarrow> s
      | Some c \<Rightarrow> s\<lparr>abortController := None, log := log s @ [Aborted]\<rparr>)"

definition setMessages :: "message list \<Rightarrow> chat \<Rightarrow> chat" where
  "setMessages messages s = mutate messages s"

text \<open>\<open>if (previousMessages.status === 'success') mutate(previousMessages.data)\<close>\<close>

definition restore :: "mutation_result \<Rightarrow> chat \<Rightarrow> chat" where
  "restore previousMessages s =
     (case previousMessages of MutationSuccess d \<Rightarrow> mutate d s | _ \<Rightarrow> s)"

definition request_messages :: "bool option \<Rightarrow> message list \<Rightarrow> json" where
  "request_messages sendExtra messagesSnapshot =
     JArr (if sendExtra = Some True then map message_json messagesSnapshot
           else map role_content messagesSnapshot)"

definition fetch_request ::
  "'c use_chat_options \<Rightarrow> request_options \<Rightarrow> message list \<Rightarrow> request" where
  "fetch_request cfg options messagesSnapshot =
     \<lparr>url = api cfg,
      http_method = ''POST'',
      req_body =
        spread
          (spread [(''messages'', request_messages (sendExtraMessageFields cfg) messagesSnapshot)]
             (body cfg))
          (opt_body options),
      req_headers = spread (spread [] (headers cfg)) (opt_headers options),
      req_credentials = credentials cfg\<rparr>"

definition assistant_message :: "string \<Rightarrow> timestamp \<Rightarrow> string \<Rightarrow> message" where
  "assistant_message replyId created result =
     \<lparr>message_id = replyId, createdAt = created, content = result, role = Assistant\<rparr>"

text \<open>
  The \<open>while (true)\<close> loop. \<open>given\<close> is the list of chunks the decoder has been
  given, \<open>result\<close> the text so far.
\<close>

fun read_loop ::
  "('c list \<Rightarrow> 'c \<Rightarrow> string) \<Rightarrow> message list \<Rightarrow> string \<Rightarrow> timestamp \<Rightarrow>
   'c list \<Rightarrow> string \<Rightarrow> 'c stream_event list \<Rightarrow> chat \<Rightarrow> chat \<times> string completion" where
  "read_loop dec snapshot replyId created given result [] s = (s, Awaits)"
| "read_loop dec snapshot replyId created given result (StopCalled # es) s =
     read_loop dec snapshot replyId created given result es (stop s)"
| "read_loop dec snapshot replyId created given result (ReadDone # es) s = (s, Returns result)"
| "read_loop dec snapshot replyId created given result (ReadRejects e # es) s =
     (s, Throws (Object e))"
| "read_loop dec snapshot replyId created given result (ReadChunk v # es) s =
     (let result' = result @ dec given v;
          s' = mutate (snapshot @ [assistant_message replyId created result']) s
      in if abortController s' = None
         then (s'\<lparr>log := log s' @ [ReaderCancelled]\<rparr>, Returns result')
         else read_loop dec snapshot replyId created (given @ [v]) result' es s')"

text \<open>From \<open>if (onFinish)\<close> to \<open>return result\<close>.\<close>

definition finish ::
  "'c use_chat_options \<Rightarrow> string \<Rightarrow> timestamp \<Rightarrow> string \<Rightarrow> chat \<Rightarrow> chat \<times> string completion" where
  "finish cfg replyId created result s =
     (case onFinish cfg of
        None \<Rightarrow> (s\<lparr>abortController := None\<rparr>, Returns result)
      | Some hook \<Rightarrow>
          (let m = assistant_message replyId created result;
               s' = s\<lparr>log := log s @ [OnFinishCalled m]\<rparr>
           in case hook m of
                HookThrows e \<Rightarrow> (s', Throws e)
              | HookReturns \<Rightarrow> (s'\<lparr>abortController := None\<rparr>, Returns result)))"

text \<open>From \<open>if (!res.ok)\<close> to the end of the \<open>try\<close> block.\<close>

definition consume ::
  "'c use_chat_options \<Rightarrow> 'c env \<Rightarrow> message list \<Rightarrow> mutation_result \<Rightarrow> 'c response \<Rightarrow>
   chat \<Rightarrow> chat \<times> string completion" where
  "consume cfg env snapshot previousMessages res s =
     (if \<not> res_ok res then
        (let s1 = restore previousMessages s;
             s2 = (if stop_during_text env then stop s1 else s1)
         in case res_text res of
              TextRejects e \<Rightarrow> (s2, Throws (Object e))
            | TextResolves t \<Rightarrow>
                (s2, Throws (Object
                   (Error (if t = [] then ''Failed to fetch the chat response.'' else t)))))
      else
        (case res_body res of
           None \<Rightarrow> (s, Throws (Object (Error ''The response body is empty.'')))
         | Some events \<Rightarrow>
             (case read_loop (decoder env) snapshot (nanoid env) (new_Date env) [] [] events s of
                (s1, Returns result) \<Rightarrow> finish cfg (nanoid env) (new_Date env) result s1
              | (s1, Throws e) \<Rightarrow> (s1, Throws e)
              | (s1, Awaits) \<Rightarrow> (s1, Awaits))))"

text \<open>The \<open>try\<close> block of \<open>triggerRequest\<close>.\<close>

definition try_block ::
  "'c use_chat_options \<Rightarrow> 'c env \<Rightarrow> message list \<Rightarrow> request_options \<Rightarrow> chat \<Rightarrow>
   chat \<times> string completion" where
  "try_block cfg env messagesSnapshot options s0 =
     (let s1 = s0\<lparr>error := None\<rparr>;
          s2 = s1\<lparr>isLoading := True\<rparr>;
          s3 = s2\<lparr>abortController := Some AbortController\<rparr>;
          previousMessages = cache s3;
          s4 = mutate messagesSnapshot s3;
          s5 = s4\<lparr>log := log s4 @ [Fetched (fetch_request cfg options messagesSnapshot)]\<rparr>;
          s6 = (if stop_during_fetch env then stop s5 else s5)
      in case fetch_result env of
           FetchRejects err \<Rightarrow> (restore previousMessages s6, Throws (Object err))
         | FetchResolves res \<Rightarrow>
             (case onResponse cfg of
                None \<Rightarrow> consume cfg env messagesSnapshot previousMessages res s6
              | Some hook \<Rightarrow>
                  (let s7 = s6\<lparr>log := log s6 @ [OnResponseCalled]\<rparr>;
                       s8 = (if stop_during_onResponse env then stop s7 else s7)
                   in case hook res of
                        HookThrows e \<Rightarrow> (s8, Throws e)
                      | HookReturns \<Rightarrow> consume cfg env messagesSnapshot previousMessages res s8)))"

text \<open>
  The \<open>catch\<close> block, with the \<open>finally\<close> block after it. The first statement
  reads \<open>(err as any).name\<close>: when \<open>err\<close> is \<open>null\<close> or \<open>undefined\<close> this throws
  a \<open>TypeError\<close> out of the \<open>catch\<close> block, the \<open>finally\<close> block runs and the
  promise is rejected.
\<close>

definition catch_block :: "'c use_chat_options \<Rightarrow> thrown \<Rightarrow> chat \<Rightarrow> chat \<times> promise" where
  "catch_block cfg err s =
     (case err of
        Nullish \<Rightarrow> (s\<lparr>isLoading := False\<rparr>, Rejected (Object name_of_nullish))
      | Object e \<Rightarrow>
          if err_name e = ''AbortError''
          then (s\<lparr>abortController := None, isLoading := False\<rparr>, Fulfilled Null)
          else
            (case (if instanceof_Error e then onError cfg else None) of
               None \<Rightarrow> (s\<lparr>error := Some e, isLoading := False\<rparr>, Fulfilled Undefined)
             | Some hook \<Rightarrow>
                 (let s' = s\<lparr>log := log s @ [OnErrorCalled e]\<rparr>
                  in case hook e of
                       HookThrows x \<Rightarrow> (s'\<lparr>isLoading := False\<rparr>, Rejected x)
                     | HookReturns \<Rightarrow>
                         (s'\<lparr>error := Some e, isLoading := False\<rparr>, Fulfilled Undefined))))"

definition triggerRequest ::
  "'c use_chat_options \<Rightarrow> 'c env \<Rightarrow> message list \<Rightarrow> request_options \<Rightarrow> chat \<Rightarrow>
   chat \<times> promise" where
  "triggerRequest cfg env messagesSnapshot options s =
     (case try_block cfg env messagesSnapshot options s of
        (s', Returns result) \<Rightarrow> (s'\<lparr>isLoading := False\<rparr>, Fulfilled (Text result))
      | (s', Throws err) \<Rightarrow> catch_block cfg err s'
      | (s', Awaits) \<Rightarrow> (s', Unsettled))"

text \<open>
  \<open>append\<close> (called \<open>append_message\<close> here) and \<open>reload\<close> read the accessor
  \<open>messages()\<close>, whose value (a list, or \<open>undefined\<close>) is the argument
  \<open>messages\<close>. \<open>fresh\<close> is what \<open>nanoid()\<close> returns inside \<open>append\<close>. An
  \<open>id\<close> that is missing or the empty string is falsy. Both return the promise of
  \<open>triggerRequest\<close>.
\<close>

definition append_message ::
  "'c use_chat_options \<Rightarrow> 'c env \<Rightarrow> string \<Rightarrow> message list option \<Rightarrow> create_message \<Rightarrow>
   request_options \<Rightarrow> chat \<Rightarrow> chat \<times> promise" where
  "append_message cfg env fresh messages m options s =
     (let i = (case cm_id m of None \<Rightarrow> fresh | Some i \<Rightarrow> if i = [] then fresh else i);
          m' = \<lparr>message_id = i, createdAt = cm_createdAt m, content = cm_content m,
                role = cm_role m\<rparr>
      in triggerRequest cfg env ((case messages of None \<Rightarrow> [] | Some ms \<Rightarrow> ms) @ [m']) options s)"

definition reload ::
  "'c use_chat_options \<Rightarrow> 'c env \<Rightarrow> message list option \<Rightarrow> request_options \<Rightarrow> chat \<Rightarrow>
   chat \<times> promise" where
  "reload cfg env messages options s =
     (case messages of
        None \<Rightarrow> (s, Fulfilled Null)
      | Some messagesSnapshot \<Rightarrow>
          if length messagesSnapshot = 0 then (s, Fulfilled Null)
          else
            (let lastMessage = messagesSnapshot ! (length messagesSnapshot - 1)
             in if role lastMessage = Assistant
                then triggerRequest cfg env
                       (take (length messagesSnapshot - 1) messagesSnapshot) options s
                else triggerRequest cfg env messagesSnapshot options s))"

section \<open>Observations and scenarios\<close>

subsection \<open>Reading the log and the stream\<close>

text \<open>
  The store writes, the requests and the hook calls of a log, in order.
\<close>

fun mutations :: "event list \<Rightarrow> message list list" where
  "mutations [] = []"
| "mutations (Mutated d # es) = d # mutations es"
| "mutations (e # es) = mutations es"

fun requests :: "event list \<Rightarrow> request list" where
  "requests [] = []"
| "requests (Fetched r # es) = r # requests es"
| "requests (e # es) = requests es"

fun finished :: "event list \<Rightarrow> message list" where
  "finished [] = []"
| "finished (OnFinishCalled m # es) = m # finished es"
| "finished (e # es) = finished es"

fun reported :: "event list \<Rightarrow> thrown_object list" where
  "reported [] = []"
| "reported (OnErrorCalled e # es) = e # reported es"
| "reported (e # es) = reported es"

text \<open>
  The texts the decoder returns for a list of chunks, when it has been given the chunks
  \<open>given\<close> before, and the accumulated text after each of them, starting from
  \<open>acc\<close>.
\<close>

fun decoded :: "('c list \<Rightarrow> 'c \<Rightarrow> string) \<Rightarrow> 'c list \<Rightarrow> 'c list \<Rightarrow> string list" where
  "decoded dec given [] = []"
| "decoded dec given (c # cs) = dec given c # decoded dec (given @ [c]) cs"

fun running :: "string \<Rightarrow> string list \<Rightarrow> string list" where
  "running acc [] = []"
| "running acc (t # ts) = (acc @ t) # running (acc @ t) ts"

text \<open>
  The assistant message of a request whose decoder has been given the chunks \<open>cs\<close>:
  the generated id, the creation time, and the concatenation of the decoded chunks.
\<close>

definition answer :: "'c env \<Rightarrow> 'c list \<Rightarrow> message" where
  "answer env cs =
     assistant_message (nanoid env) (new_Date env) (concat (decoded (decoder env) [] cs))"

subsection \<open>Scenarios\<close>

text \<open>
  The error hook is absent, is not called (the value is not an \<open>Error\<close>), or returns.
\<close>

definition error_hook_returns :: "'c use_chat_options \<Rightarrow> thrown_object \<Rightarrow> bool" where
  "error_hook_returns cfg err =
     (case onError cfg of
        None \<Rightarrow> True
      | Some hook \<Rightarrow> instanceof_Error err \<longrightarrow> hook err = HookReturns)"

text \<open>The response hook is absent or returns; the completion hook is absent or returns.\<close>

definition response_passes :: "'c use_chat_options \<Rightarrow> 'c response \<Rightarrow> bool" where
  "response_passes cfg res =
     (case onResponse cfg of None \<Rightarrow> True | Some hook \<Rightarrow> hook res = HookReturns)"

definition finish_hook_returns :: "'c use_chat_options \<Rightarrow> message \<Rightarrow> bool" where
  "finish_hook_returns cfg m =
     (case onFinish cfg of None \<Rightarrow> True | Some hook \<Rightarrow> hook m = HookReturns)"

text \<open>
  The request reaches the loop with \<open>abortController\<close> still set: \<open>fetch\<close>
  resolves with a success status and the body \<open>events\<close>, the response hook passes,
  and \<open>stop()\<close> is not called before the first read.
\<close>

definition stream_opens :: "'c use_chat_options \<Rightarrow> 'c env \<Rightarrow> 'c stream_event list \<Rightarrow> bool" where
  "stream_opens cfg env events =
     (\<not> stop_during_fetch env \<and> \<not> stop_during_onResponse env \<and>
      (case fetch_result env of
         FetchRejects e \<Rightarrow> False
       | FetchResolves res \<Rightarrow>
           res_ok res \<and> res_body res = Some events \<and> response_passes cfg res))"

text \<open>
  The loop is over, or waits: nothing is left of the events, or the next read reports
  \<open>done\<close> or rejects.
\<close>

fun reading_ends :: "'c stream_event list \<Rightarrow> bool" where
  "reading_ends [] = True"
| "reading_ends (ReadDone # es) = True"
| "reading_ends (ReadRejects e # es) = True"
| "reading_ends (e # es) = False"

text \<open>
  Two states used in the proofs: the state in which the loop starts, and the state
  after the loop has written the accumulated texts \<open>rs\<close>.
\<close>

definition opened ::
  "'c use_chat_options \<Rightarrow> message list \<Rightarrow> request_options \<Rightarrow> chat \<Rightarrow> chat" where
  "opened cfg snapshot options s =
     (let s3 = s\<lparr>error := None, isLoading := True, abortController := Some AbortController\<rparr>;
          s4 = mutate snapshot s3
      in s4\<lparr>log := log s4 @ Fetched (fetch_request cfg options snapshot) #
           (case onResponse cfg of None \<Rightarrow> [] | Some hook \<Rightarrow> [OnResponseCalled])\<rparr>)"

fun chunk_writes :: "message list \<Rightarrow> string \<Rightarrow> timestamp \<Rightarrow> string list \<Rightarrow> chat \<Rightarrow> chat" where
  "chunk_writes snapshot replyId created [] s = s"
| "chunk_writes snapshot replyId created (r # rs) s =
     chunk_writes snapshot replyId created rs
       (mutate (snapshot @ [assistant_message replyId created r]) s)"

subsection \<open>Concrete sessions\<close>

text \<open>
  The example of the specification: an empty conversation, the user message \<open>hi\<close>,
  and an endpoint that answers in a given way. Chunks are byte strings of ASCII text,
  which the decoder returns as they are.
\<close>

definition default_options :: "string use_chat_options" where
  "default_options =
     \<lparr>api = ''/api/chat'', sendExtraMessageFields = None, onResponse = None,
      onFinish = None, onError = None, credentials = None, headers = [], body = []\<rparr>"

definition no_options :: request_options where
  "no_options = \<lparr>opt_headers = [], opt_body = []\<rparr>"

definition empty_chat :: chat where
  "empty_chat =
     \<lparr>store = None, cache = MutationSuccess [], error = None, isLoading = False,
      abortController = None, log = []\<rparr>"

definition pending_chat :: chat where
  "pending_chat = empty_chat\<lparr>cache := MutationPending\<rparr>"

definition user_hi :: message where
  "user_hi =
     \<lparr>message_id = ''m1'', createdAt = ''2023-06-23T10:00:00.000Z'', content = ''hi'',
      role = User\<rparr>"

definition assistant_hello :: message where
  "assistant_hello =
     \<lparr>message_id = ''r0'', createdAt = ''2023-06-23T10:00:00.500Z'', content = ''Hello'',
      role = Assistant\<rparr>"

definition bytes_decoder :: "string list \<Rightarrow> string \<Rightarrow> string" where
  "bytes_decoder given chunk = chunk"

definition answering :: "string fetch_result \<Rightarrow> string env" where
  "answering r =
     \<lparr>stop_during_fetch = False, fetch_result = r,
      stop_during_onResponse = False, stop_during_text = False,
      new_Date = ''2023-06-23T10:00:01.000Z'', nanoid = ''r1'', decoder = bytes_decoder\<rparr>"

definition streaming :: "string stream_event list \<Rightarrow> string env" where
  "streaming events =
     answering
       (FetchResolves \<lparr>res_ok = True, res_text = TextResolves [], res_body = Some events\<rparr>)"



definition type_error :: thrown_object where
  "type_error = ThrownObject True ''TypeError'' ''Failed to fetch''"

definition abort_error :: thrown_object where
  "abort_error = ThrownObject True ''AbortError'' ''The user aborted a request.''"

definition rethrowing :: "string use_chat_options" where
  "rethrowing = default_options\<lparr>onError := Some (\<lambda>e. HookThrows (Object e))\<rparr>"

definition inspecting :: "string use_chat_options" where
  "inspecting =
     default_options\<lparr>onResponse :=
       Some (\<lambda>res. HookThrows (Object (Error ''unexpected response'')))\<rparr>"

definition overriding :: "string use_chat_options" where
  "overriding = default_options\<lparr>body := [(''messages'', JArr [JObj [(''id'', JStr ''m0'')]])]\<rparr>"

definition aborting :: "string use_chat_options" where
  "aborting = default_options\<lparr>onResponse := Some (\<lambda>res. HookThrows (Object abort_error))\<rparr>"

section \<open>Properties\<close>

subsection \<open>The log, the decoder and the accumulated text\<close>

lemma mutations_append: "mutations (xs @ ys) = mutations xs @ mutations ys"
  by (induction xs rule: mutations.induct) auto

lemma requests_append: "requests (xs @ ys) = requests xs @ requests ys"
  by (induction xs rule: requests.induct) auto

lemma finished_append: "finished (xs @ ys) = finished xs @ finished ys"
  by (induction xs rule: finished.induct) auto

lemma reported_append: "reported (xs @ ys) = reported xs @ reported ys"
  by (induction xs rule: reported.induct) auto

lemmas filter_append = mutations_append requests_append finished_append reported_append

lemma running_length: "length (running acc ts) = length ts"
  by (induction ts arbitrary: acc) auto

lemma running_last_Cons: "last (running acc (t # ts)) = acc @ t @ concat ts"
  by (induction ts arbitrary: acc t) simp_all

lemma running_last: "ts \<noteq> [] \<Longrightarrow> last (running acc ts) = acc @ concat ts"
  by (cases ts) (simp, simp only: running_last_Cons concat.simps)

lemma running_Nil: "(running acc ts = []) = (ts = [])"
  by (cases ts) auto

lemma running_append:
  "running acc (ts @ us) = running acc ts @ running (acc @ concat ts) us"
  by (induction ts arbitrary: acc) auto

lemma running_bound: "r \<in> set (running acc ts) \<Longrightarrow> length acc \<le> length r"
  by (induction ts arbitrary: acc) fastforce+

lemma running_growing: "sorted_wrt (\<lambda>a b. length a \<le> length b) (running acc ts)"
proof (induction ts arbitrary: acc)
  case Nil
  then show ?case by simp
next
  case (Cons t ts)
  have "length (acc @ t) \<le> length r" if "r \<in> set (running (acc @ t) ts)" for r
    using running_bound [OF that] .
  with Cons show ?case by simp
qed

lemma running_strict_bound:
  "r \<in> set (running acc ts) \<Longrightarrow> \<forall>t \<in> set ts. t \<noteq> [] \<Longrightarrow> length acc < length r"
proof (induction ts arbitrary: acc)
  case Nil
  then show ?case by simp
next
  case (Cons t ts)
  have t: "length acc < length (acc @ t)" using Cons.prems(2) by (cases t) simp_all
  from Cons.prems(1) have "r = acc @ t \<or> r \<in> set (running (acc @ t) ts)" by simp
  then show ?case
  proof
    assume "r = acc @ t"
    with t show ?thesis by simp
  next
    assume "r \<in> set (running (acc @ t) ts)"
    then have "length (acc @ t) < length r" using Cons.IH [of "acc @ t"] Cons.prems(2) by simp
    with t show ?thesis by linarith
  qed
qed

lemma running_strictly_growing:
  "\<forall>t \<in> set ts. t \<noteq> [] \<Longrightarrow> sorted_wrt (\<lambda>a b. length a < length b) (running acc ts)"
proof (induction ts arbitrary: acc)
  case Nil
  then show ?case by simp
next
  case (Cons t ts)
  have "length (acc @ t) < length r" if "r \<in> set (running (acc @ t) ts)" for r
    using running_strict_bound [OF that] Cons.prems by simp
  with Cons show ?case by simp
qed

lemma decoded_length: "length (decoded dec given cs) = length cs"
  by (induction cs arbitrary: given) auto

lemma decoded_Nil: "(decoded dec given cs = []) = (cs = [])"
  by (cases cs) auto

lemma decoded_append:
  "decoded dec given (xs @ ys) = decoded dec given xs @ decoded dec (given @ xs) ys"
  by (induction xs arbitrary: given) auto

lemma lookup_assign: "lookup (assign k v obj) k' = (if k' = k then Some v else lookup obj k')"
  by (induction obj) auto

lemma lookup_spread_absent: "lookup kvs k = None \<Longrightarrow> lookup (spread obj kvs) k = lookup obj k"
  by (induction kvs arbitrary: obj) (auto simp: lookup_assign split: if_splits)

subsection \<open>What each step changes\<close>

lemma mutate_fields:
  "store (mutate d s) = Some d" "cache (mutate d s) = MutationSuccess d"
  "error (mutate d s) = error s" "isLoading (mutate d s) = isLoading s"
  "abortController (mutate d s) = abortController s"
  "log (mutate d s) = log s @ [Mutated d]"
  by (simp_all add: mutate_def)

lemma stop_fields:
  "store (stop s) = store s" "cache (stop s) = cache s"
  "error (stop s) = error s" "isLoading (stop s) = isLoading s"
  "abortController (stop s) = None"
  "mutations (log (stop s)) = mutations (log s)"
  "requests (log (stop s)) = requests (log s)"
  "finished (log (stop s)) = finished (log s)"
  "reported (log (stop s)) = reported (log s)"
  by (simp_all add: stop_def filter_append split: option.splits)

lemma restore_fields:
  "store (restore p s) = (case p of MutationSuccess d \<Rightarrow> Some d | _ \<Rightarrow> store s)"
  "cache (restore p s) = (case p of MutationSuccess d \<Rightarrow> MutationSuccess d | _ \<Rightarrow> cache s)"
  "error (restore p s) = error s" "isLoading (restore p s) = isLoading s"
  "abortController (restore p s) = abortController s"
  "mutations (log (restore p s)) =
     mutations (log s) @ (case p of MutationSuccess d \<Rightarrow> [d] | _ \<Rightarrow> [])"
  "requests (log (restore p s)) = requests (log s)"
  "finished (log (restore p s)) = finished (log s)"
  "reported (log (restore p s)) = reported (log s)"
  by (simp_all add: restore_def mutate_fields filter_append split: mutation_result.splits)

lemma chunk_writes_fields:
  "store (chunk_writes snap rid t rs s) =
     (if rs = [] then store s else Some (snap @ [assistant_message rid t (last rs)]))"
  "cache (chunk_writes snap rid t rs s) =
     (if rs = [] then cache s else MutationSuccess (snap @ [assistant_message rid t (last rs)]))"
  "error (chunk_writes snap rid t rs s) = error s"
  "isLoading (chunk_writes snap rid t rs s) = isLoading s"
  "abortController (chunk_writes snap rid t rs s) = abortController s"
  "log (chunk_writes snap rid t rs s) =
     log s @ map (\<lambda>r. Mutated (snap @ [assistant_message rid t r])) rs"
  by (induction rs arbitrary: s) (simp_all add: mutate_fields)

lemma chunk_writes_mutations:
  "mutations (log (chunk_writes snap rid t rs s)) =
     mutations (log s) @ map (\<lambda>r. snap @ [assistant_message rid t r]) rs"
  by (induction rs arbitrary: s) (simp_all add: mutate_fields filter_append)

lemma chunk_writes_filters:
  "finished (log (chunk_writes snap rid t rs s)) = finished (log s)"
  "reported (log (chunk_writes snap rid t rs s)) = reported (log s)"
  by (induction rs arbitrary: s) (simp_all add: mutate_fields filter_append)

lemma opened_fields:
  "store (opened cfg snap options s) = Some snap"
  "cache (opened cfg snap options s) = MutationSuccess snap"
  "error (opened cfg snap options s) = None"
  "isLoading (opened cfg snap options s)"
  "abortController (opened cfg snap options s) = Some AbortController"
  "mutations (log (opened cfg snap options s)) = mutations (log s) @ [snap]"
  "finished (log (opened cfg snap options s)) = finished (log s)"
  "reported (log (opened cfg snap options s)) = reported (log s)"
  by (simp_all add: opened_def mutate_def Let_def filter_append split: option.splits)

lemma read_loop_frame:
  "read_loop dec snap rid t given result es s = (s1, c) \<Longrightarrow>
   error s1 = error s \<and> isLoading s1 = isLoading s \<and>
   requests (log s1) = requests (log s) \<and> finished (log s1) = finished (log s) \<and>
   reported (log s1) = reported (log s)"
proof (induction dec snap rid t given result es s rule: read_loop.induct)
  case (5 dec snapshot replyId created given result v es s)
  then show ?case
    by (auto simp: Let_def mutate_fields filter_append split: if_splits)
qed (auto simp: stop_fields)

lemma finish_frame:
  "finish cfg rid t result s = (s1, c) \<Longrightarrow>
   store s1 = store s \<and> cache s1 = cache s \<and> error s1 = error s \<and>
   isLoading s1 = isLoading s \<and> mutations (log s1) = mutations (log s) \<and>
   requests (log s1) = requests (log s) \<and> reported (log s1) = reported (log s)"
  by (auto simp: finish_def Let_def filter_append split: option.splits hook_result.splits)

lemma finish_fields:
  "store (fst (finish cfg rid t r s)) = store s"
  "cache (fst (finish cfg rid t r s)) = cache s"
  "error (fst (finish cfg rid t r s)) = error s"
  "mutations (log (fst (finish cfg rid t r s))) = mutations (log s)"
  "reported (log (fst (finish cfg rid t r s))) = reported (log s)"
  "finished (log (fst (finish cfg rid t r s))) =
     finished (log s) @
     (case onFinish cfg of None \<Rightarrow> [] | Some hook \<Rightarrow> [assistant_message rid t r])"
  "set (log s) \<subseteq> set (log (fst (finish cfg rid t r s)))"
  by (auto simp: finish_def Let_def filter_append split: option.splits hook_result.splits)

lemma finish_returns:
  "finish_hook_returns cfg (assistant_message rid t r) \<Longrightarrow>
   snd (finish cfg rid t r s) = Returns r"
  by (simp add: finish_def finish_hook_returns_def Let_def split: option.splits)

lemma consume_frame:
  "consume cfg env snap prev res s = (s1, c) \<Longrightarrow>
   error s1 = error s \<and> isLoading s1 = isLoading s \<and>
   requests (log s1) = requests (log s) \<and> reported (log s1) = reported (log s)"
  unfolding consume_def Let_def
  by (auto simp: restore_fields stop_fields
      split: if_splits text_result.splits option.splits prod.splits completion.splits
      dest!: read_loop_frame finish_frame)

lemma try_block_frame:
  "try_block cfg env snap options s = (s1, c) \<Longrightarrow>
   error s1 = None \<and> isLoading s1 \<and>
   requests (log s1) = requests (log s) @ [fetch_request cfg options snap] \<and>
   reported (log s1) = reported (log s)"
  unfolding try_block_def Let_def
  by (auto simp: restore_fields stop_fields mutate_fields filter_append
      split: if_splits fetch_result.splits option.splits hook_result.splits
      dest!: consume_frame)

lemma catch_block_frame:
  "store (fst (catch_block cfg err s)) = store s"
  "cache (fst (catch_block cfg err s)) = cache s"
  "mutations (log (fst (catch_block cfg err s))) = mutations (log s)"
  "requests (log (fst (catch_block cfg err s))) = requests (log s)"
  "finished (log (fst (catch_block cfg err s))) = finished (log s)"
  by (simp_all add: catch_block_def Let_def filter_append
      split: thrown.splits option.splits hook_result.splits)

lemma catch_block_loading: "\<not> isLoading (fst (catch_block cfg err s))"
  by (simp add: catch_block_def Let_def split: thrown.splits option.splits hook_result.splits)

lemma catch_block_settles: "snd (catch_block cfg err s) \<noteq> Unsettled"
  by (simp add: catch_block_def Let_def split: thrown.splits option.splits hook_result.splits)

lemma triggerRequest_frame:
  "store (fst (triggerRequest cfg env snap options s)) = store (fst (try_block cfg env snap options s))"
  "cache (fst (triggerRequest cfg env snap options s)) = cache (fst (try_block cfg env snap options s))"
  "mutations (log (fst (triggerRequest cfg env snap options s))) =
     mutations (log (fst (try_block cfg env snap options s)))"
  "requests (log (fst (triggerRequest cfg env snap options s))) =
     requests (log (fst (try_block cfg env snap options s)))"
  "finished (log (fst (triggerRequest cfg env snap options s))) =
     finished (log (fst (try_block cfg env snap options s)))"
  by (simp_all add: triggerRequest_def catch_block_frame split: prod.splits completion.splits)

lemma triggerRequest_requests:
  "requests (log (fst (triggerRequest cfg env snap options s))) =
     requests (log s) @ [fetch_request cfg options snap]"
  using try_block_frame [of cfg env snap options s]
  by (cases "try_block cfg env snap options s") (simp add: triggerRequest_frame)

lemma triggerRequest_log:
  "set (log (fst (try_block cfg env snap options s))) \<subseteq>
   set (log (fst (triggerRequest cfg env snap options s)))"
  by (auto simp: triggerRequest_def catch_block_def Let_def
      split: prod.splits completion.splits thrown.splits option.splits hook_result.splits)

subsection \<open>The loop on a run of chunks\<close>

lemma read_loop_chunks:
  "abortController s = Some c \<Longrightarrow>
   read_loop dec snap rid t given result (map ReadChunk cs @ es) s =
   read_loop dec snap rid t (given @ cs) (result @ concat (decoded dec given cs)) es
     (chunk_writes snap rid t (running result (decoded dec given cs)) s)"
proof (induction cs arbitrary: given result s)
  case Nil
  then show ?case by simp
next
  case (Cons x cs)
  have "abortController (mutate d s) = Some c" for d
    using Cons.prems by (simp add: mutate_fields)
  then show ?case using Cons.IH by (simp add: Let_def)
qed

lemma read_loop_done:
  "abortController s = Some c \<Longrightarrow>
   read_loop dec snap rid t given result (map ReadChunk cs @ ReadDone # rest) s =
     (chunk_writes snap rid t (running result (decoded dec given cs)) s,
      Returns (result @ concat (decoded dec given cs)))"
  by (simp add: read_loop_chunks)

lemma read_loop_rejects:
  "abortController s = Some c \<Longrightarrow>
   read_loop dec snap rid t given result (map ReadChunk cs @ ReadRejects e # rest) s =
     (chunk_writes snap rid t (running result (decoded dec given cs)) s, Throws (Object e))"
  by (simp add: read_loop_chunks)

lemma read_loop_waits:
  "abortController s = Some c \<Longrightarrow>
   read_loop dec snap rid t given result (map ReadChunk cs) s =
     (chunk_writes snap rid t (running result (decoded dec given cs)) s, Awaits)"
  using read_loop_chunks [of s c dec snap rid t given result cs "[]"] by simp

lemma read_loop_stop_chunk:
  "abortController s = Some c \<Longrightarrow>
   read_loop dec snap rid t given result (map ReadChunk cs @ StopCalled # ReadChunk v # rest) s =
     ((mutate (snap @ [assistant_message rid t
           (result @ concat (decoded dec given cs) @ dec (given @ cs) v)])
         (stop (chunk_writes snap rid t (running result (decoded dec given cs)) s)))
      \<lparr>log := log (mutate (snap @ [assistant_message rid t
           (result @ concat (decoded dec given cs) @ dec (given @ cs) v)])
         (stop (chunk_writes snap rid t (running result (decoded dec given cs)) s))) @
         [ReaderCancelled]\<rparr>,
      Returns (result @ concat (decoded dec given cs) @ dec (given @ cs) v))"
  by (simp add: read_loop_chunks Let_def mutate_fields stop_fields)

lemma read_loop_stop_rejects:
  "abortController s = Some c \<Longrightarrow>
   read_loop dec snap rid t given result (map ReadChunk cs @ StopCalled # ReadRejects e # rest) s =
     (stop (chunk_writes snap rid t (running result (decoded dec given cs)) s),
      Throws (Object e))"
  by (simp add: read_loop_chunks)

subsection \<open>The paths through the \<open>try\<close> block\<close>

lemma try_block_rejected:
  "fetch_result env = FetchRejects err \<Longrightarrow>
   snd (try_block cfg env snap options s) = Throws (Object err) \<and>
   store (fst (try_block cfg env snap options s)) =
     Some (case cache s of MutationSuccess d \<Rightarrow> d | _ \<Rightarrow> snap) \<and>
   cache (fst (try_block cfg env snap options s)) =
     MutationSuccess (case cache s of MutationSuccess d \<Rightarrow> d | _ \<Rightarrow> snap) \<and>
   mutations (log (fst (try_block cfg env snap options s))) =
     mutations (log s) @ snap # (case cache s of MutationSuccess d \<Rightarrow> [d] | _ \<Rightarrow> [])"
  by (simp add: try_block_def Let_def restore_fields stop_fields mutate_fields filter_append
      split: mutation_result.splits)

lemma try_block_hook_throws:
  "fetch_result env = FetchResolves res \<Longrightarrow> onResponse cfg = Some hook \<Longrightarrow>
   hook res = HookThrows x \<Longrightarrow>
   snd (try_block cfg env snap options s) = Throws x \<and>
   store (fst (try_block cfg env snap options s)) = Some snap \<and>
   cache (fst (try_block cfg env snap options s)) = MutationSuccess snap \<and>
   mutations (log (fst (try_block cfg env snap options s))) = mutations (log s) @ [snap]"
  by (simp add: try_block_def Let_def stop_fields mutate_fields filter_append)



lemma try_block_stream:
  "stream_opens cfg env events \<Longrightarrow>
   try_block cfg env snap options s =
     (case read_loop (decoder env) snap (nanoid env) (new_Date env) [] [] events
             (opened cfg snap options s) of
        (s1, Returns result) \<Rightarrow> finish cfg (nanoid env) (new_Date env) result s1
      | (s1, Throws e) \<Rightarrow> (s1, Throws e)
      | (s1, Awaits) \<Rightarrow> (s1, Awaits))"
  by (auto simp: stream_opens_def response_passes_def try_block_def consume_def opened_def
      mutate_def Let_def split: fetch_result.splits option.splits)

lemma try_block_completes:
  assumes "stream_opens cfg env (map ReadChunk cs @ ReadDone # rest)"
  shows "try_block cfg env snap options s =
           finish cfg (nanoid env) (new_Date env) (concat (decoded (decoder env) [] cs))
             (chunk_writes snap (nanoid env) (new_Date env)
                (running [] (decoded (decoder env) [] cs)) (opened cfg snap options s))"
  by (simp add: try_block_stream [OF assms] read_loop_done [OF opened_fields(5)])

lemma try_block_interrupted:
  assumes "stream_opens cfg env (map ReadChunk cs @ ReadRejects e # rest)"
  shows "try_block cfg env snap options s =
           (chunk_writes snap (nanoid env) (new_Date env)
              (running [] (decoded (decoder env) [] cs)) (opened cfg snap options s),
            Throws (Object e))"
  by (simp add: try_block_stream [OF assms] read_loop_rejects [OF opened_fields(5)])

lemma try_block_waits:
  assumes "stream_opens cfg env (map ReadChunk cs)"
  shows "try_block cfg env snap options s =
           (chunk_writes snap (nanoid env) (new_Date env)
              (running [] (decoded (decoder env) [] cs)) (opened cfg snap options s), Awaits)"
  by (simp add: try_block_stream [OF assms] read_loop_waits [OF opened_fields(5)])

lemma try_block_stop_chunk:
  assumes "stream_opens cfg env (map ReadChunk cs @ StopCalled # ReadChunk v # rest)"
  shows "try_block cfg env snap options s =
           finish cfg (nanoid env) (new_Date env) (concat (decoded (decoder env) [] (cs @ [v])))
             ((mutate (snap @ [assistant_message (nanoid env) (new_Date env)
                   (concat (decoded (decoder env) [] (cs @ [v])))])
                 (stop (chunk_writes snap (nanoid env) (new_Date env)
                   (running [] (decoded (decoder env) [] cs)) (opened cfg snap options s))))
              \<lparr>log := log (mutate (snap @ [assistant_message (nanoid env) (new_Date env)
                   (concat (decoded (decoder env) [] (cs @ [v])))])
                 (stop (chunk_writes snap (nanoid env) (new_Date env)
                   (running [] (decoded (decoder env) [] cs)) (opened cfg snap options s)))) @
                 [ReaderCancelled]\<rparr>)"
  by (simp add: try_block_stream [OF assms] read_loop_stop_chunk [OF opened_fields(5)]
      decoded_append)

lemma try_block_stop_rejects:
  assumes "stream_opens cfg env (map ReadChunk cs @ StopCalled # ReadRejects e # rest)"
  shows "try_block cfg env snap options s =
           (stop (chunk_writes snap (nanoid env) (new_Date env)
              (running [] (decoded (decoder env) [] cs)) (opened cfg snap options s)),
            Throws (Object e))"
  by (simp add: try_block_stream [OF assms] read_loop_stop_rejects [OF opened_fields(5)])

subsection \<open>How the promise settles\<close>

lemma triggerRequest_Throws:
  "try_block cfg env snap options s = (s1, Throws err) \<Longrightarrow>
   triggerRequest cfg env snap options s = catch_block cfg err s1"
  by (simp add: triggerRequest_def)

lemma catch_block_abort:
  "err_name err = ''AbortError'' \<Longrightarrow>
   catch_block cfg (Object err) s =
     (s\<lparr>abortController := None, isLoading := False\<rparr>, Fulfilled Null)"
  by (simp add: catch_block_def)

lemma catch_block_surfaces:
  "err_name err \<noteq> ''AbortError'' \<Longrightarrow> error_hook_returns cfg err \<Longrightarrow>
   snd (catch_block cfg (Object err) s) = Fulfilled Undefined \<and>
   error (fst (catch_block cfg (Object err) s)) = Some err \<and>
   reported (log (fst (catch_block cfg (Object err) s))) =
     reported (log s) @ (if instanceof_Error err \<and> onError cfg \<noteq> None then [err] else [])"
  by (auto simp: catch_block_def error_hook_returns_def Let_def filter_append
      split: option.splits hook_result.splits)

lemma catch_block_hook_throws:
  "err_name err \<noteq> ''AbortError'' \<Longrightarrow> onError cfg = Some hook \<Longrightarrow> instanceof_Error err \<Longrightarrow>
   hook err = HookThrows x \<Longrightarrow>
   snd (catch_block cfg (Object err) s) = Rejected x \<and>
   error (fst (catch_block cfg (Object err) s)) = error s \<and>
   reported (log (fst (catch_block cfg (Object err) s))) = reported (log s) @ [err]"
  by (simp add: catch_block_def Let_def filter_append)

lemma catch_block_nullish:
  "catch_block cfg Nullish s = (s\<lparr>isLoading := False\<rparr>, Rejected (Object name_of_nullish))"
  by (simp add: catch_block_def)

lemma triggerRequest_Returns:
  assumes "snd (try_block cfg env snap options s) = Returns r"
  shows "snd (triggerRequest cfg env snap options s) = Fulfilled (Text r) \<and>
         error (fst (triggerRequest cfg env snap options s)) = None \<and>
         reported (log (fst (triggerRequest cfg env snap options s))) = reported (log s)"
proof -
  obtain s1 where t: "try_block cfg env snap options s = (s1, Returns r)"
    using assms by (cases "try_block cfg env snap options s") simp
  show ?thesis using try_block_frame [OF t] by (simp add: triggerRequest_def t)
qed

lemma triggerRequest_surfaces:
  assumes "snd (try_block cfg env snap options s) = Throws (Object err)"
    and "err_name err \<noteq> ''AbortError''" and "error_hook_returns cfg err"
  shows "snd (triggerRequest cfg env snap options s) = Fulfilled Undefined \<and>
         error (fst (triggerRequest cfg env snap options s)) = Some err \<and>
         reported (log (fst (triggerRequest cfg env snap options s))) =
           reported (log s) @ (if instanceof_Error err \<and> onError cfg \<noteq> None then [err] else [])"
proof -
  obtain s1 where t: "try_block cfg env snap options s = (s1, Throws (Object err))"
    using assms(1) by (cases "try_block cfg env snap options s") simp
  have "reported (log s1) = reported (log s)"
    using try_block_frame [OF t] by simp
  then show ?thesis
    using catch_block_surfaces [OF assms(2,3), of s1] by (simp add: triggerRequest_Throws [OF t])
qed

lemma triggerRequest_cancelled:
  assumes "snd (try_block cfg env snap options s) = Throws (Object err)"
    and "err_name err = ''AbortError''"
  shows "snd (triggerRequest cfg env snap options s) = Fulfilled Null \<and>
         error (fst (triggerRequest cfg env snap options s)) = None \<and>
         reported (log (fst (triggerRequest cfg env snap options s))) = reported (log s)"
proof -
  obtain s1 where t: "try_block cfg env snap options s = (s1, Throws (Object err))"
    using assms(1) by (cases "try_block cfg env snap options s") simp
  show ?thesis
    using try_block_frame [OF t]
    by (simp add: triggerRequest_Throws [OF t] catch_block_abort [OF assms(2)])
qed

lemma triggerRequest_hook_throws:
  assumes "snd (try_block cfg env snap options s) = Throws (Object err)"
    and "err_name err \<noteq> ''AbortError''" and "onError cfg = Some hook"
    and "instanceof_Error err" and "hook err = HookThrows x"
  shows "snd (triggerRequest cfg env snap options s) = Rejected x \<and>
         error (fst (triggerRequest cfg env snap options s)) = None \<and>
         reported (log (fst (triggerRequest cfg env snap options s))) = reported (log s) @ [err]"
proof -
  obtain s1 where t: "try_block cfg env snap options s = (s1, Throws (Object err))"
    using assms(1) by (cases "try_block cfg env snap options s") simp
  show ?thesis
    using try_block_frame [OF t] catch_block_hook_throws [OF assms(2-5), of s1]
    by (simp add: triggerRequest_Throws [OF t])
qed

lemma triggerRequest_nullish:
  assumes "snd (try_block cfg env snap options s) = Throws Nullish"
  shows "snd (triggerRequest cfg env snap options s) = Rejected (Object name_of_nullish) \<and>
         error (fst (triggerRequest cfg env snap options s)) = None \<and>
         reported (log (fst (triggerRequest cfg env snap options s))) = reported (log s)"
proof -
  obtain s1 where t: "try_block cfg env snap options s = (s1, Throws Nullish)"
    using assms by (cases "try_block cfg env snap options s") simp
  show ?thesis
    using try_block_frame [OF t]
    by (simp add: triggerRequest_Throws [OF t] catch_block_nullish)
qed

lemma triggerRequest_settles:
  "snd (try_block cfg env snap options s) \<noteq> Awaits \<Longrightarrow>
   snd (triggerRequest cfg env snap options s) \<noteq> Unsettled \<and>
   \<not> isLoading (fst (triggerRequest cfg env snap options s))"
  by (cases "try_block cfg env snap options s")
    (auto simp: triggerRequest_def catch_block_loading catch_block_settles
      split: completion.splits)

lemma finish_settles: "snd (finish cfg rid t r s) \<noteq> Awaits"
  by (simp add: finish_def Let_def split: option.splits hook_result.splits)

lemma triggerRequest_waits:
  "snd (try_block cfg env snap options s) = Awaits \<Longrightarrow>
   triggerRequest cfg env snap options s = (fst (try_block cfg env snap options s), Unsettled)"
  by (cases "try_block cfg env snap options s") (simp add: triggerRequest_def)

text \<open>The definitions a concrete session is evaluated with.\<close>

lemmas run_defs =
  triggerRequest_def try_block_def catch_block_def consume_def finish_def restore_def
  mutate_def stop_def fetch_request_def request_messages_def assistant_message_def
  role_content_def message_json_def role_json_def Error_def answer_def
  error_hook_returns_def response_passes_def finish_hook_returns_def stream_opens_def
  default_options_def no_options_def empty_chat_def user_hi_def bytes_decoder_def
  answering_def streaming_def type_error_def abort_error_def Let_def

subsection \<open>The store after a completed stream\<close>

text \<open>
  C1, as amended. Let the stream open and deliver the chunks \<open>cs\<close> and then
  \<open>done\<close>, with no call of \<open>stop()\<close>. If there is at least one chunk, the request
  leaves in the store (in \<open>store[key]\<close> and in the cache entry) the submitted
  snapshot followed by exactly one assistant message, whose content is the
  concatenation of the decoded chunks in order. If there is no chunk, the loop writes
  nothing and the store holds the snapshot alone: the assistant message with empty
  content is built only as the argument of \<open>onFinish\<close>. In both cases \<open>onFinish\<close>,
  if configured, is called once with that message, and when it returns (or is absent)
  the promise is fulfilled with the text and the error signal is empty.
\<close>

theorem stream_completes:
  assumes "stream_opens cfg env (map ReadChunk cs @ ReadDone # rest)"
  shows "store (fst (triggerRequest cfg env snap options s)) =
           Some (if cs = [] then snap else snap @ [answer env cs]) \<and>
         cache (fst (triggerRequest cfg env snap options s)) =
           MutationSuccess (if cs = [] then snap else snap @ [answer env cs]) \<and>
         finished (log (fst (triggerRequest cfg env snap options s))) =
           finished (log s) @ (case onFinish cfg of None \<Rightarrow> [] | Some hook \<Rightarrow> [answer env cs]) \<and>
         (finish_hook_returns cfg (answer env cs) \<longrightarrow>
            snd (triggerRequest cfg env snap options s) =
              Fulfilled (Text (concat (decoded (decoder env) [] cs))) \<and>
            error (fst (triggerRequest cfg env snap options s)) = None)"
proof -
  let ?texts = "decoded (decoder env) [] cs"
  have last: "cs \<noteq> [] \<Longrightarrow> last (running [] ?texts) = concat ?texts"
    using running_last [of ?texts "[]"] by (simp add: decoded_Nil)
  have stored: "store (fst (try_block cfg env snap options s)) =
      Some (if cs = [] then snap else snap @ [answer env cs])"
    using last
    by (simp add: try_block_completes [OF assms] finish_fields chunk_writes_fields opened_fields
        running_Nil decoded_Nil answer_def)
  have cached: "cache (fst (try_block cfg env snap options s)) =
      MutationSuccess (if cs = [] then snap else snap @ [answer env cs])"
    using last
    by (simp add: try_block_completes [OF assms] finish_fields chunk_writes_fields opened_fields
        running_Nil decoded_Nil answer_def)
  have hooked: "finished (log (fst (try_block cfg env snap options s))) =
      finished (log s) @ (case onFinish cfg of None \<Rightarrow> [] | Some hook \<Rightarrow> [answer env cs])"
    by (simp add: try_block_completes [OF assms] finish_fields chunk_writes_filters opened_fields
        answer_def split: option.splits)
  have returned: "snd (try_block cfg env snap options s) = Returns (concat ?texts)"
    if "finish_hook_returns cfg (answer env cs)"
    using that by (simp add: try_block_completes [OF assms] finish_returns answer_def)
  show ?thesis
    using stored cached hooked returned triggerRequest_Returns [of cfg env snap options s]
    by (simp add: triggerRequest_frame)
qed

text \<open>
  The example of the specification: the endpoint streams \<open>He\<close>, then \<open>llo\<close>, then
  closes.
\<close>

theorem stream_completes_witness:
  "store (fst (triggerRequest default_options
      (streaming [ReadChunk ''He'', ReadChunk ''llo'', ReadDone]) [user_hi] no_options
      empty_chat)) =
     Some [user_hi, assistant_message ''r1'' ''2023-06-23T10:00:01.000Z'' ''Hello''] \<and>
   snd (triggerRequest default_options
      (streaming [ReadChunk ''He'', ReadChunk ''llo'', ReadDone]) [user_hi] no_options
      empty_chat) = Fulfilled (Text ''Hello'')"
  using stream_completes [of default_options
      "streaming [ReadChunk ''He'', ReadChunk ''llo'', ReadDone]" "[''He'', ''llo'']" "[]"
      "[user_hi]" no_options empty_chat]
  by (simp add: run_defs)

text \<open>
  The claim as stated fails for a stream that closes before its first chunk: the
  request completes with the empty text, and the store holds the snapshot, with no
  assistant message after it.
\<close>

theorem stream_completes_counterexample:
  "snd (triggerRequest default_options (streaming [ReadDone]) [user_hi] no_options empty_chat) =
     Fulfilled (Text []) \<and>
   store (fst (triggerRequest default_options (streaming [ReadDone]) [user_hi] no_options
      empty_chat)) = Some [user_hi] \<and>
   store (fst (triggerRequest default_options (streaming [ReadDone]) [user_hi] no_options
      empty_chat)) \<noteq>
     Some ([user_hi] @ [assistant_message ''r1'' ''2023-06-23T10:00:01.000Z'' []])"
  by (simp add: run_defs)

subsection \<open>The store writes of a stream\<close>

text \<open>
  C2, as amended. Let the stream open and deliver the chunks \<open>cs\<close>, after which the
  request is still waiting, or the next read reports \<open>done\<close> or rejects. The store
  writes of the request are then the snapshot (the optimistic write) and, for each
  chunk, the snapshot followed by a single assistant message with the generated reply
  id and creation time: the last message is replaced, never a second one appended.
  The content of the \<open>k\<close>-th of these messages is the concatenation of the first
  \<open>k\<close> decoded chunks, so the last one carries the concatenation of all of them. The
  length of the content never decreases, and it grows strictly from each write to the
  next when no chunk decodes to the empty text.
\<close>

theorem stream_writes:
  assumes "stream_opens cfg env (map ReadChunk cs @ rest)" and "reading_ends rest"
  shows "mutations (log (fst (triggerRequest cfg env snap options s))) =
           mutations (log s) @ snap #
           map (\<lambda>r. snap @ [assistant_message (nanoid env) (new_Date env) r])
             (running [] (decoded (decoder env) [] cs)) \<and>
         length (running [] (decoded (decoder env) [] cs)) = length cs \<and>
         sorted_wrt (\<lambda>a b. length a \<le> length b) (running [] (decoded (decoder env) [] cs)) \<and>
         ((\<forall>t \<in> set (decoded (decoder env) [] cs). t \<noteq> []) \<longrightarrow>
            sorted_wrt (\<lambda>a b. length a < length b) (running [] (decoded (decoder env) [] cs))) \<and>
         (cs \<noteq> [] \<longrightarrow>
            last (running [] (decoded (decoder env) [] cs)) =
              concat (decoded (decoder env) [] cs))"
proof -
  let ?texts = "decoded (decoder env) [] cs"
  let ?w = "chunk_writes snap (nanoid env) (new_Date env) (running [] ?texts)
      (opened cfg snap options s)"
  have "mutations (log (fst (try_block cfg env snap options s))) = mutations (log ?w)"
  proof (cases rest)
    case Nil
    with assms(1) show ?thesis by (simp add: try_block_waits)
  next
    case (Cons e es)
    show ?thesis
    proof (cases e)
      case StopCalled
      with Cons assms(2) show ?thesis by simp
    next
      case (ReadChunk v)
      with Cons assms(2) show ?thesis by simp
    next
      case ReadDone
      with Cons assms(1) show ?thesis by (simp add: try_block_completes finish_fields)
    next
      case (ReadRejects x)
      with Cons assms(1) show ?thesis by (simp add: try_block_interrupted)
    qed
  qed
  then have "mutations (log (fst (triggerRequest cfg env snap options s))) =
      mutations (log s) @ snap #
      map (\<lambda>r. snap @ [assistant_message (nanoid env) (new_Date env) r]) (running [] ?texts)"
    by (simp add: triggerRequest_frame chunk_writes_mutations opened_fields)
  moreover have "cs \<noteq> [] \<longrightarrow> last (running [] ?texts) = concat ?texts"
    using running_last [of ?texts "[]"] by (simp add: decoded_Nil)
  ultimately show ?thesis
    using running_growing [of "[]" ?texts] running_strictly_growing [of ?texts "[]"]
    by (simp add: running_length decoded_length)
qed

text \<open>
  The example of the specification: the observed states are \<open>[hi]\<close>,
  \<open>[hi, He]\<close> and \<open>[hi, Hello]\<close>.
\<close>

theorem stream_writes_witness:
  "mutations (log (fst (triggerRequest default_options
      (streaming [ReadChunk ''He'', ReadChunk ''llo'', ReadDone]) [user_hi] no_options
      empty_chat))) =
     [[user_hi],
      [user_hi, assistant_message ''r1'' ''2023-06-23T10:00:01.000Z'' ''He''],
      [user_hi, assistant_message ''r1'' ''2023-06-23T10:00:01.000Z'' ''Hello'']] \<and>
   sorted_wrt (\<lambda>a b. length a < length b) (running [] (decoded bytes_decoder [] [''He'', ''llo'']))"
  using stream_writes [of default_options
      "streaming [ReadChunk ''He'', ReadChunk ''llo'', ReadDone]" "[''He'', ''llo'']" "[ReadDone]"
      "[user_hi]" no_options empty_chat]
  by (simp add: run_defs)

text \<open>
  The claim as stated (strictly growing content) fails when a read delivers no
  complete character: here an empty chunk, with a decoder that keeps an incomplete
  multi-byte sequence for the next call also a chunk that ends inside a character.
  The store is written again with the same content.
\<close>

theorem stream_writes_counterexample:
  "mutations (log (fst (triggerRequest default_options
      (streaming [ReadChunk ''He'', ReadChunk [], ReadChunk ''llo'', ReadDone]) [user_hi]
      no_options empty_chat))) =
     [[user_hi],
      [user_hi, assistant_message ''r1'' ''2023-06-23T10:00:01.000Z'' ''He''],
      [user_hi, assistant_message ''r1'' ''2023-06-23T10:00:01.000Z'' ''He''],
      [user_hi, assistant_message ''r1'' ''2023-06-23T10:00:01.000Z'' ''Hello'']] \<and>
   \<not> sorted_wrt (<) (map (\<lambda>d. length (content (last d)))
      (tl (mutations (log (fst (triggerRequest default_options
        (streaming [ReadChunk ''He'', ReadChunk [], ReadChunk ''llo'', ReadDone]) [user_hi]
        no_options empty_chat))))))"
  by (simp add: run_defs)

subsection \<open>A rejected \<open>fetch\<close>\<close>

text \<open>
  C3, as amended. Let \<open>fetch\<close> reject with \<open>err\<close>. If the entry read before the
  request had status \<open>success\<close> with the list \<open>d\<close>, the store is written back to
  \<open>d\<close>; with any other status nothing is restored and the store keeps the submitted
  snapshot. The error signal becomes \<open>err\<close> when \<open>err\<close> is not a cancellation (its
  name is not \<open>AbortError\<close>) and the error hook, if it is called, returns. When
  \<open>err\<close> is a cancellation the store is restored in the same way, the error signal
  stays empty and the promise is fulfilled with \<open>null\<close>.
\<close>

theorem fetch_rejected:
  assumes "fetch_result env = FetchRejects err"
  shows "store (fst (triggerRequest cfg env snap options s)) =
           Some (case cache s of MutationSuccess d \<Rightarrow> d | _ \<Rightarrow> snap) \<and>
         cache (fst (triggerRequest cfg env snap options s)) =
           MutationSuccess (case cache s of MutationSuccess d \<Rightarrow> d | _ \<Rightarrow> snap) \<and>
         mutations (log (fst (triggerRequest cfg env snap options s))) =
           mutations (log s) @ snap # (case cache s of MutationSuccess d \<Rightarrow> [d] | _ \<Rightarrow> []) \<and>
         (err_name err \<noteq> ''AbortError'' \<longrightarrow> error_hook_returns cfg err \<longrightarrow>
            error (fst (triggerRequest cfg env snap options s)) = Some err) \<and>
         (err_name err = ''AbortError'' \<longrightarrow>
            error (fst (triggerRequest cfg env snap options s)) = None \<and>
            snd (triggerRequest cfg env snap options s) = Fulfilled Null)"
  using try_block_rejected [OF assms, of cfg snap options s]
    triggerRequest_surfaces [of cfg env snap options s err]
    triggerRequest_cancelled [of cfg env snap options s err]
  by (simp add: triggerRequest_frame)

text \<open>
  A network failure after a \<open>success\<close> entry holding the empty list, and the same
  failure after a \<open>pending\<close> entry.
\<close>

theorem fetch_rejected_witness:
  "store (fst (triggerRequest default_options (answering (FetchRejects type_error)) [user_hi]
      no_options empty_chat)) = Some [] \<and>
   cache (fst (triggerRequest default_options (answering (FetchRejects type_error)) [user_hi]
      no_options empty_chat)) = MutationSuccess [] \<and>
   error (fst (triggerRequest default_options (answering (FetchRejects type_error)) [user_hi]
      no_options empty_chat)) = Some type_error \<and>
   store (fst (triggerRequest default_options (answering (FetchRejects type_error)) [user_hi]
      no_options pending_chat)) = Some [user_hi] \<and>
   mutations (log (fst (triggerRequest default_options (answering (FetchRejects type_error))
      [user_hi] no_options pending_chat))) = [[user_hi]]"
  using fetch_rejected [of "answering (FetchRejects type_error)" type_error default_options
      "[user_hi]" no_options empty_chat]
    fetch_rejected [of "answering (FetchRejects type_error)" type_error default_options
      "[user_hi]" no_options pending_chat]
  by (simp add: run_defs pending_chat_def)

text \<open>
  The claim as stated fails for a rejection that is a cancellation: \<open>stop()\<close> is
  called while \<open>fetch\<close> is awaited and \<open>fetch\<close> rejects with an \<open>AbortError\<close>. The
  store is restored, and the error signal stays empty.
\<close>

theorem fetch_rejected_counterexample:
  "fetch_result ((answering (FetchRejects abort_error))\<lparr>stop_during_fetch := True\<rparr>) =
     FetchRejects abort_error \<and>
   cache empty_chat = MutationSuccess [] \<and>
   store (fst (triggerRequest default_options
      ((answering (FetchRejects abort_error))\<lparr>stop_during_fetch := True\<rparr>) [user_hi]
      no_options empty_chat)) = Some [] \<and>
   error (fst (triggerRequest default_options
      ((answering (FetchRejects abort_error))\<lparr>stop_during_fetch := True\<rparr>) [user_hi]
      no_options empty_chat)) = None"
  by (simp add: run_defs)

subsection \<open>A failed response\<close>




subsection \<open>Cancellation\<close>

text \<open>
  C5, as amended. Whenever the \<open>try\<close> block throws a value named \<open>AbortError\<close>, the
  promise is fulfilled with \<open>null\<close>, the error signal stays empty, the error hook is
  not called, and the \<open>catch\<close> block writes nothing to the store. In particular,
  when \<open>stop()\<close> is called after the chunks \<open>cs\<close> and the pending read rejects
  with an \<open>AbortError\<close>, no further write occurs, the completion hook is not called
  and the store keeps what was written: the snapshot followed by the partial assistant
  message (the snapshot alone if there was no chunk).
  When instead the pending read still delivers a chunk \<open>v\<close>, that chunk is written, the
  loop sees the cleared \<open>abortController\<close>, cancels the reader and writes nothing
  more, whatever the stream would deliver next; the completion hook is called with the
  partial message, and when it returns the promise is fulfilled with the partial text
  (not with \<open>null\<close>), with the error signal empty and the error hook not called.
\<close>

theorem stop_outcomes:
  "(snd (try_block cfg env snap options s) = Throws (Object err) \<longrightarrow>
    err_name err = ''AbortError'' \<longrightarrow>
      snd (triggerRequest cfg env snap options s) = Fulfilled Null \<and>
      error (fst (triggerRequest cfg env snap options s)) = None \<and>
      reported (log (fst (triggerRequest cfg env snap options s))) = reported (log s) \<and>
      store (fst (triggerRequest cfg env snap options s)) =
        store (fst (try_block cfg env snap options s)) \<and>
      mutations (log (fst (triggerRequest cfg env snap options s))) =
        mutations (log (fst (try_block cfg env snap options s)))) \<and>
   (stream_opens cfg env (map ReadChunk cs @ StopCalled # ReadRejects err # rest) \<longrightarrow>
    err_name err = ''AbortError'' \<longrightarrow>
      snd (triggerRequest cfg env snap options s) = Fulfilled Null \<and>
      error (fst (triggerRequest cfg env snap options s)) = None \<and>
      reported (log (fst (triggerRequest cfg env snap options s))) = reported (log s) \<and>
      finished (log (fst (triggerRequest cfg env snap options s))) = finished (log s) \<and>
      store (fst (triggerRequest cfg env snap options s)) =
        Some (if cs = [] then snap else snap @ [answer env cs]) \<and>
      mutations (log (fst (triggerRequest cfg env snap options s))) =
        mutations (log s) @ snap #
        map (\<lambda>r. snap @ [assistant_message (nanoid env) (new_Date env) r])
          (running [] (decoded (decoder env) [] cs))) \<and>
   (stream_opens cfg env (map ReadChunk cs @ StopCalled # ReadChunk v # rest) \<longrightarrow>
      store (fst (triggerRequest cfg env snap options s)) = Some (snap @ [answer env (cs @ [v])]) \<and>
      mutations (log (fst (triggerRequest cfg env snap options s))) =
        mutations (log s) @ snap #
        map (\<lambda>r. snap @ [assistant_message (nanoid env) (new_Date env) r])
          (running [] (decoded (decoder env) [] (cs @ [v]))) \<and>
      ReaderCancelled \<in> set (log (fst (triggerRequest cfg env snap options s))) \<and>
      finished (log (fst (triggerRequest cfg env snap options s))) =
        finished (log s) @
        (case onFinish cfg of None \<Rightarrow> [] | Some hook \<Rightarrow> [answer env (cs @ [v])]) \<and>
      (finish_hook_returns cfg (answer env (cs @ [v])) \<longrightarrow>
         snd (triggerRequest cfg env snap options s) =
           Fulfilled (Text (concat (decoded (decoder env) [] (cs @ [v])))) \<and>
         error (fst (triggerRequest cfg env snap options s)) = None \<and>
         reported (log (fst (triggerRequest cfg env snap options s))) = reported (log s)))"
proof (intro conjI impI)
  assume "snd (try_block cfg env snap options s) = Throws (Object err)"
    "err_name err = ''AbortError''"
  then show "snd (triggerRequest cfg env snap options s) = Fulfilled Null"
    "error (fst (triggerRequest cfg env snap options s)) = None"
    "reported (log (fst (triggerRequest cfg env snap options s))) = reported (log s)"
    using triggerRequest_cancelled by blast+
  show "store (fst (triggerRequest cfg env snap options s)) =
      store (fst (try_block cfg env snap options s))"
    "mutations (log (fst (triggerRequest cfg env snap options s))) =
      mutations (log (fst (try_block cfg env snap options s)))"
    by (simp_all add: triggerRequest_frame)
next
  let ?texts = "decoded (decoder env) [] cs"
  assume opens: "stream_opens cfg env (map ReadChunk cs @ StopCalled # ReadRejects err # rest)"
    and abort: "err_name err = ''AbortError''"
  have t: "try_block cfg env snap options s =
      (stop (chunk_writes snap (nanoid env) (new_Date env) (running [] ?texts)
         (opened cfg snap options s)), Throws (Object err))"
    using try_block_stop_rejects [OF opens] .
  then have thrown: "snd (try_block cfg env snap options s) = Throws (Object err)" by simp
  show "snd (triggerRequest cfg env snap options s) = Fulfilled Null"
    "error (fst (triggerRequest cfg env snap options s)) = None"
    "reported (log (fst (triggerRequest cfg env snap options s))) = reported (log s)"
    using triggerRequest_cancelled [OF thrown abort] by blast+
  show "finished (log (fst (triggerRequest cfg env snap options s))) = finished (log s)"
    by (simp add: triggerRequest_frame t stop_fields chunk_writes_filters opened_fields)
  have "cs \<noteq> [] \<Longrightarrow> last (running [] ?texts) = concat ?texts"
    using running_last [of ?texts "[]"] by (simp add: decoded_Nil)
  then show "store (fst (triggerRequest cfg env snap options s)) =
      Some (if cs = [] then snap else snap @ [answer env cs])"
    by (simp add: triggerRequest_frame t stop_fields chunk_writes_fields opened_fields
        running_Nil decoded_Nil answer_def)
  show "mutations (log (fst (triggerRequest cfg env snap options s))) =
      mutations (log s) @ snap #
      map (\<lambda>r. snap @ [assistant_message (nanoid env) (new_Date env) r]) (running [] ?texts)"
    by (simp add: triggerRequest_frame t stop_fields chunk_writes_mutations opened_fields)
next
  let ?texts = "decoded (decoder env) [] cs"
  let ?all = "decoded (decoder env) [] (cs @ [v])"
  let ?w = "chunk_writes snap (nanoid env) (new_Date env) (running [] ?texts)
      (opened cfg snap options s)"
  let ?m = "mutate (snap @ [answer env (cs @ [v])]) (stop ?w)"
  assume opens: "stream_opens cfg env (map ReadChunk cs @ StopCalled # ReadChunk v # rest)"
  have t: "try_block cfg env snap options s =
      finish cfg (nanoid env) (new_Date env) (concat ?all)
        (?m\<lparr>log := log ?m @ [ReaderCancelled]\<rparr>)"
    using try_block_stop_chunk [OF opens, of snap options s] by (simp add: answer_def)
  show "store (fst (triggerRequest cfg env snap options s)) = Some (snap @ [answer env (cs @ [v])])"
    by (simp add: triggerRequest_frame t finish_fields mutate_fields)
  have "running [] ?all = running [] ?texts @ [concat ?all]"
    by (simp add: decoded_append running_append)
  then show "mutations (log (fst (triggerRequest cfg env snap options s))) =
      mutations (log s) @ snap #
      map (\<lambda>r. snap @ [assistant_message (nanoid env) (new_Date env) r]) (running [] ?all)"
    by (simp add: triggerRequest_frame t finish_fields mutate_fields stop_fields filter_append
        chunk_writes_mutations opened_fields answer_def)
  have "ReaderCancelled \<in> set (log (fst (try_block cfg env snap options s)))"
    using finish_fields(7) [of "?m\<lparr>log := log ?m @ [ReaderCancelled]\<rparr>" cfg "nanoid env"
        "new_Date env" "concat ?all"]
    by (auto simp: t)
  then show "ReaderCancelled \<in> set (log (fst (triggerRequest cfg env snap options s)))"
    using triggerRequest_log by blast
  show "finished (log (fst (triggerRequest cfg env snap options s))) =
      finished (log s) @ (case onFinish cfg of None \<Rightarrow> [] | Some hook \<Rightarrow> [answer env (cs @ [v])])"
    by (simp add: triggerRequest_frame t finish_fields mutate_fields stop_fields filter_append
        chunk_writes_filters opened_fields answer_def split: option.splits)
  assume "finish_hook_returns cfg (answer env (cs @ [v]))"
  then have "snd (try_block cfg env snap options s) = Returns (concat ?all)"
    by (simp add: t finish_returns answer_def)
  then show "snd (triggerRequest cfg env snap options s) = Fulfilled (Text (concat ?all))"
    "error (fst (triggerRequest cfg env snap options s)) = None"
    "reported (log (fst (triggerRequest cfg env snap options s))) = reported (log s)"
    using triggerRequest_Returns by blast+
qed

text \<open>
  \<open>stop()\<close> after the chunk \<open>He\<close>, followed by a read that rejects with an
  \<open>AbortError\<close>, and followed by a read that delivers \<open>llo\<close>.
\<close>

theorem stop_outcomes_witness:
  "snd (triggerRequest default_options
      (streaming [ReadChunk ''He'', StopCalled, ReadRejects abort_error]) [user_hi] no_options
      empty_chat) = Fulfilled Null \<and>
   error (fst (triggerRequest default_options
      (streaming [ReadChunk ''He'', StopCalled, ReadRejects abort_error]) [user_hi] no_options
      empty_chat)) = None \<and>
   store (fst (triggerRequest default_options
      (streaming [ReadChunk ''He'', StopCalled, ReadRejects abort_error]) [user_hi] no_options
      empty_chat)) =
     Some [user_hi, assistant_message ''r1'' ''2023-06-23T10:00:01.000Z'' ''He''] \<and>
   store (fst (triggerRequest default_options
      (streaming [ReadChunk ''He'', StopCalled, ReadChunk ''llo'', ReadChunk ''!'', ReadDone])
      [user_hi] no_options empty_chat)) =
     Some [user_hi, assistant_message ''r1'' ''2023-06-23T10:00:01.000Z'' ''Hello''] \<and>
   mutations (log (fst (triggerRequest default_options
      (streaming [ReadChunk ''He'', StopCalled, ReadChunk ''llo'', ReadChunk ''!'', ReadDone])
      [user_hi] no_options empty_chat))) =
     [[user_hi],
      [user_hi, assistant_message ''r1'' ''2023-06-23T10:00:01.000Z'' ''He''],
      [user_hi, assistant_message ''r1'' ''2023-06-23T10:00:01.000Z'' ''Hello'']] \<and>
   snd (triggerRequest default_options
      (streaming [ReadChunk ''He'', StopCalled, ReadChunk ''llo'', ReadChunk ''!'', ReadDone])
      [user_hi] no_options empty_chat) = Fulfilled (Text ''Hello'')"
  using stop_outcomes [where cfg = default_options
      and env = "streaming [ReadChunk ''He'', StopCalled, ReadRejects abort_error]"
      and snap = "[user_hi]" and options = no_options and s = empty_chat
      and err = abort_error and cs = "[''He'']" and rest = "[]"]
    stop_outcomes [where cfg = default_options
      and env = "streaming [ReadChunk ''He'', StopCalled, ReadChunk ''llo'', ReadChunk ''!'', ReadDone]"
      and snap = "[user_hi]" and options = no_options and s = empty_chat
      and cs = "[''He'']" and v = "''llo''" and rest = "[ReadChunk ''!'', ReadDone]"]
  by (simp add: run_defs)

text \<open>
  The claim as stated fails when the cancellation is observed as the cleared
  \<open>abortController\<close>: the promise is fulfilled with the text accumulated so far.
\<close>

theorem stop_outcomes_counterexample:
  "snd (triggerRequest default_options
      (streaming [ReadChunk ''He'', StopCalled, ReadChunk ''llo'', ReadChunk ''!'', ReadDone])
      [user_hi] no_options empty_chat) = Fulfilled (Text ''Hello'') \<and>
   snd (triggerRequest default_options
      (streaming [ReadChunk ''He'', StopCalled, ReadChunk ''llo'', ReadChunk ''!'', ReadDone])
      [user_hi] no_options empty_chat) \<noteq> Fulfilled Null \<and>
   log (fst (triggerRequest default_options
      (streaming [ReadChunk ''He'', StopCalled, ReadChunk ''llo'', ReadChunk ''!'', ReadDone])
      [user_hi] no_options empty_chat)) =
     [Mutated [user_hi],
      Fetched (fetch_request default_options no_options [user_hi]),
      Mutated [user_hi, assistant_message ''r1'' ''2023-06-23T10:00:01.000Z'' ''He''],
      Aborted,
      Mutated [user_hi, assistant_message ''r1'' ''2023-06-23T10:00:01.000Z'' ''Hello''],
      ReaderCancelled]"
  by (simp add: run_defs)

subsection \<open>\<open>reload\<close>\<close>

text \<open>
  C6. \<open>reload\<close> on a missing or empty list is fulfilled with \<open>null\<close> and leaves the
  state as it is, so no request is issued. On a list whose last message is from the
  assistant it is the request for the list without its last message, and on any other
  non-empty list it is the request for the list unchanged; the one request it issues
  carries that list.
\<close>

theorem reload_resubmits:
  "reload cfg env None options s = (s, Fulfilled Null) \<and>
   reload cfg env (Some []) options s = (s, Fulfilled Null) \<and>
   (ms \<noteq> [] \<longrightarrow> role (last ms) = Assistant \<longrightarrow>
      reload cfg env (Some ms) options s = triggerRequest cfg env (butlast ms) options s \<and>
      requests (log (fst (reload cfg env (Some ms) options s))) =
        requests (log s) @ [fetch_request cfg options (butlast ms)]) \<and>
   (ms \<noteq> [] \<longrightarrow> role (last ms) \<noteq> Assistant \<longrightarrow>
      reload cfg env (Some ms) options s = triggerRequest cfg env ms options s \<and>
      requests (log (fst (reload cfg env (Some ms) options s))) =
        requests (log s) @ [fetch_request cfg options ms])"
  by (simp add: reload_def Let_def last_conv_nth butlast_conv_take triggerRequest_requests)

text \<open>
  The empty list, the list \<open>[hi, Hello]\<close> that ends with an assistant message, and the
  list \<open>[hi]\<close>: both requests submit \<open>[hi]\<close>.
\<close>

theorem reload_resubmits_witness:
  "reload default_options (streaming [ReadChunk ''Hi'', ReadDone]) (Some []) no_options empty_chat =
     (empty_chat, Fulfilled Null) \<and>
   requests (log (fst (reload default_options (streaming [ReadChunk ''Hi'', ReadDone])
      (Some [user_hi, assistant_hello]) no_options empty_chat))) =
     [fetch_request default_options no_options [user_hi]] \<and>
   requests (log (fst (reload default_options (streaming [ReadChunk ''Hi'', ReadDone])
      (Some [user_hi]) no_options empty_chat))) =
     [fetch_request default_options no_options [user_hi]] \<and>
   store (fst (reload default_options (streaming [ReadChunk ''Hi'', ReadDone])
      (Some [user_hi, assistant_hello]) no_options empty_chat)) =
     Some [user_hi, assistant_message ''r1'' ''2023-06-23T10:00:01.000Z'' ''Hi'']"
  using reload_resubmits [of default_options "streaming [ReadChunk ''Hi'', ReadDone]" no_options
      empty_chat "[user_hi, assistant_hello]"]
    reload_resubmits [of default_options "streaming [ReadChunk ''Hi'', ReadDone]" no_options
      empty_chat "[user_hi]"]
  by (simp add: run_defs reload_def assistant_hello_def)

subsection \<open>The messages of the request body\<close>

text \<open>
  C7, as amended. Provided neither the \<open>body\<close> of the options nor the \<open>body\<close> of
  the request options has a property \<open>messages\<close> (a spread property of that name
  replaces the list), the one request of \<open>triggerRequest\<close> has as its \<open>messages\<close>
  the snapshot, message by message: with \<open>sendExtraMessageFields\<close> missing or false
  each message is the object of its \<open>role\<close> and \<open>content\<close> only, and with
  \<open>sendExtraMessageFields\<close> true each message is sent with all its fields.
\<close>

theorem request_messages_fields:
  assumes "lookup (body cfg) ''messages'' = None"
    and "lookup (opt_body options) ''messages'' = None"
  shows "requests (log (fst (triggerRequest cfg env snap options s))) =
           requests (log s) @ [fetch_request cfg options snap] \<and>
         lookup (req_body (fetch_request cfg options snap)) ''messages'' =
           Some (JArr (map (if sendExtraMessageFields cfg = Some True then message_json
                            else role_content) snap)) \<and>
         keys (role_content m) = [''role'', ''content''] \<and>
         keys (message_json m) = [''id'', ''createdAt'', ''content'', ''role'']"
  using assms
  by (simp add: triggerRequest_requests fetch_request_def request_messages_def
      lookup_spread_absent role_content_def message_json_def)

text \<open>
  The message \<open>hi\<close> with the default options, and with
  \<open>sendExtraMessageFields\<close> set.
\<close>

theorem request_messages_fields_witness:
  "requests (log (fst (triggerRequest default_options (streaming [ReadDone]) [user_hi] no_options
      empty_chat))) = [fetch_request default_options no_options [user_hi]] \<and>
   lookup (req_body (fetch_request default_options no_options [user_hi])) ''messages'' =
     Some (JArr [JObj [(''role'', JStr ''user''), (''content'', JStr ''hi'')]]) \<and>
   lookup (req_body (fetch_request (default_options\<lparr>sendExtraMessageFields := Some True\<rparr>)
      no_options [user_hi])) ''messages'' =
     Some (JArr [JObj [(''id'', JStr ''m1''), (''createdAt'', JStr ''2023-06-23T10:00:00.000Z''),
       (''content'', JStr ''hi''), (''role'', JStr ''user'')]])"
  using request_messages_fields [of default_options no_options "streaming [ReadDone]" "[user_hi]"
      empty_chat user_hi]
    request_messages_fields [of "default_options\<lparr>sendExtraMessageFields := Some True\<rparr>"
      no_options "streaming [ReadDone]" "[user_hi]" empty_chat user_hi]
  by (simp add: run_defs)

text \<open>
  The claim as stated fails when the \<open>body\<close> option has a property \<open>messages\<close>: it
  is spread after the list and replaces it, so the messages of the request body are
  those of the option, with whatever fields they have.
\<close>

theorem request_messages_fields_counterexample:
  "sendExtraMessageFields overriding = None \<and>
   requests (log (fst (triggerRequest overriding (streaming [ReadDone]) [user_hi] no_options
      empty_chat))) = [fetch_request overriding no_options [user_hi]] \<and>
   lookup (req_body (fetch_request overriding no_options [user_hi])) ''messages'' =
     Some (JArr [JObj [(''id'', JStr ''m0'')]]) \<and>
   lookup (req_body (fetch_request overriding no_options [user_hi])) ''messages'' \<noteq>
     Some (JArr [role_content user_hi])"
  by (simp add: run_defs overriding_def)

subsection \<open>The loading flag\<close>

text \<open>
  C8. The request sets \<open>isLoading\<close>: it is true when the \<open>try\<close> block ends or
  waits. Every way the \<open>try\<close> block ends settles the promise with \<open>isLoading\<close>
  reset to false by the \<open>finally\<close> block: a returned text fulfils it with the text
  (success), any thrown value fulfils or rejects it (error), and a thrown value named
  \<open>AbortError\<close> fulfils it with \<open>null\<close> (cancellation). The promise stays
  unsettled, with \<open>isLoading\<close> true, only while the \<open>try\<close> block waits for a read
  that has not completed. So the promise is never settled with \<open>isLoading\<close> true. In
  terms of the inputs: a stream that opens and reports \<open>done\<close> after its chunks, and a
  \<open>fetch\<close> that rejects, both settle the promise with \<open>isLoading\<close> false.
\<close>

theorem loading_reset:
  "isLoading (fst (try_block cfg env snap options s)) \<and>
   (snd (try_block cfg env snap options s) = Awaits \<longrightarrow>
      snd (triggerRequest cfg env snap options s) = Unsettled \<and>
      isLoading (fst (triggerRequest cfg env snap options s))) \<and>
   (\<forall>r. snd (try_block cfg env snap options s) = Returns r \<longrightarrow>
      snd (triggerRequest cfg env snap options s) = Fulfilled (Text r) \<and>
      \<not> isLoading (fst (triggerRequest cfg env snap options s))) \<and>
   (\<forall>x. snd (try_block cfg env snap options s) = Throws x \<longrightarrow>
      snd (triggerRequest cfg env snap options s) \<noteq> Unsettled \<and>
      \<not> isLoading (fst (triggerRequest cfg env snap options s))) \<and>
   (\<forall>e. snd (try_block cfg env snap options s) = Throws (Object e) \<longrightarrow>
      err_name e = ''AbortError'' \<longrightarrow>
      snd (triggerRequest cfg env snap options s) = Fulfilled Null \<and>
      \<not> isLoading (fst (triggerRequest cfg env snap options s))) \<and>
   (snd (triggerRequest cfg env snap options s) \<noteq> Unsettled \<longrightarrow>
      \<not> isLoading (fst (triggerRequest cfg env snap options s))) \<and>
   (\<forall>cs rest. stream_opens cfg env (map ReadChunk cs @ ReadDone # rest) \<longrightarrow>
      snd (triggerRequest cfg env snap options s) \<noteq> Unsettled \<and>
      \<not> isLoading (fst (triggerRequest cfg env snap options s))) \<and>
   (\<forall>err. fetch_result env = FetchRejects err \<longrightarrow>
      snd (triggerRequest cfg env snap options s) \<noteq> Unsettled \<and>
      \<not> isLoading (fst (triggerRequest cfg env snap options s)))"
proof -
  let ?blk = "try_block cfg env snap options s"
  let ?run = "triggerRequest cfg env snap options s"
  have loading: "isLoading (fst ?blk)"
    using try_block_frame [of cfg env snap options s "fst ?blk" "snd ?blk"] by simp
  have settles: "snd ?run \<noteq> Unsettled \<and> \<not> isLoading (fst ?run)" if "snd ?blk \<noteq> Awaits"
    using triggerRequest_settles [OF that] .
  have waits: "snd ?run = Unsettled \<and> isLoading (fst ?run)" if "snd ?blk = Awaits"
    using triggerRequest_waits [OF that] loading by simp
  have returns: "snd ?run = Fulfilled (Text r)" if "snd ?blk = Returns r" for r
    using triggerRequest_Returns [OF that] by simp
  have cancelled: "snd ?run = Fulfilled Null"
    if "snd ?blk = Throws (Object e)" "err_name e = ''AbortError''" for e
    using triggerRequest_cancelled [OF that] by simp
  have settled: "\<not> isLoading (fst ?run)" if "snd ?run \<noteq> Unsettled"
  proof (cases "snd ?blk = Awaits")
    case True
    with waits that show ?thesis by simp
  next
    case False
    with settles show ?thesis by simp
  qed
  have completes: "snd ?blk \<noteq> Awaits"
    if "stream_opens cfg env (map ReadChunk cs @ ReadDone # rest)" for cs rest
    by (simp add: try_block_completes [OF that] finish_settles)
  have rejected: "snd ?blk \<noteq> Awaits" if "fetch_result env = FetchRejects err" for err
    using try_block_rejected [OF that, of cfg snap options s] by simp
  show ?thesis
    using loading waits returns cancelled settled settles completes rejected
    by (auto simp del: not_None_eq)
qed

text \<open>
  Success (the example of the specification), error (a network failure), cancellation
  (\<open>stop()\<close> while \<open>fetch\<close> is awaited), and a request still waiting for its next
  read.
\<close>

theorem loading_reset_witness:
  "snd (triggerRequest default_options (streaming [ReadChunk ''He'', ReadChunk ''llo'', ReadDone])
      [user_hi] no_options empty_chat) = Fulfilled (Text ''Hello'') \<and>
   \<not> isLoading (fst (triggerRequest default_options
      (streaming [ReadChunk ''He'', ReadChunk ''llo'', ReadDone]) [user_hi] no_options
      empty_chat)) \<and>
   snd (triggerRequest default_options (answering (FetchRejects type_error)) [user_hi]
      no_options empty_chat) = Fulfilled Undefined \<and>
   \<not> isLoading (fst (triggerRequest default_options (answering (FetchRejects type_error))
      [user_hi] no_options empty_chat)) \<and>
   snd (triggerRequest default_options
      ((answering (FetchRejects abort_error))\<lparr>stop_during_fetch := True\<rparr>) [user_hi]
      no_options empty_chat) = Fulfilled Null \<and>
   \<not> isLoading (fst (triggerRequest default_options
      ((answering (FetchRejects abort_error))\<lparr>stop_during_fetch := True\<rparr>) [user_hi]
      no_options empty_chat)) \<and>
   snd (triggerRequest default_options (streaming [ReadChunk ''He'']) [user_hi] no_options
      empty_chat) = Unsettled \<and>
   isLoading (fst (triggerRequest default_options (streaming [ReadChunk ''He'']) [user_hi]
      no_options empty_chat))"
  using loading_reset [of default_options
      "streaming [ReadChunk ''He'', ReadChunk ''llo'', ReadDone]" "[user_hi]" no_options
      empty_chat]
    loading_reset [of default_options "answering (FetchRejects type_error)" "[user_hi]"
      no_options empty_chat]
    loading_reset [of default_options
      "(answering (FetchRejects abort_error))\<lparr>stop_during_fetch := True\<rparr>" "[user_hi]"
      no_options empty_chat]
    loading_reset [of default_options "streaming [ReadChunk ''He'']" "[user_hi]" no_options
      empty_chat]
  by (simp add: run_defs)

subsection \<open>Errors and the promise\<close>

text \<open>
  C9, as amended. Let the \<open>try\<close> block throw \<open>err\<close>, whatever the source
  (\<open>fetch\<close>, the status, the missing body, a hook, a read), where \<open>err\<close> is a value
  other than \<open>null\<close> and \<open>undefined\<close> and is not a cancellation. If the error hook
  is absent, is not called because \<open>err\<close> is not an \<open>Error\<close>, or returns, the
  promise is fulfilled with \<open>undefined\<close>, \<open>err\<close> is the error signal, and
  \<open>err\<close> has been passed to the hook exactly when the hook is configured and
  \<open>err\<close> is an \<open>Error\<close>. If the error hook is called and throws, the promise is
  rejected with what the hook threw and the error signal stays empty. \<open>append\<close> and
  \<open>reload\<close> return the promise of \<open>triggerRequest\<close>.
\<close>

theorem errors_surface:
  assumes "snd (try_block cfg env snap options s) = Throws (Object err)"
    and "err_name err \<noteq> ''AbortError''"
  shows "(error_hook_returns cfg err \<longrightarrow>
            snd (triggerRequest cfg env snap options s) = Fulfilled Undefined \<and>
            error (fst (triggerRequest cfg env snap options s)) = Some err \<and>
            reported (log (fst (triggerRequest cfg env snap options s))) =
              reported (log s) @
              (if instanceof_Error err \<and> onError cfg \<noteq> None then [err] else [])) \<and>
         (\<forall>hook x. onError cfg = Some hook \<longrightarrow> instanceof_Error err \<longrightarrow>
            hook err = HookThrows x \<longrightarrow>
            snd (triggerRequest cfg env snap options s) = Rejected x \<and>
            error (fst (triggerRequest cfg env snap options s)) = None \<and>
            reported (log (fst (triggerRequest cfg env snap options s))) =
              reported (log s) @ [err])"
  using triggerRequest_surfaces [OF assms] triggerRequest_hook_throws [OF assms]
  by blast

text \<open>
  A network failure with an error hook that returns, and a response hook that throws an
  \<open>Error\<close> with no error hook.
\<close>

theorem errors_surface_witness:
  "snd (try_block (default_options\<lparr>onError := Some (\<lambda>e. HookReturns)\<rparr>)
      (answering (FetchRejects type_error)) [user_hi] no_options empty_chat) =
     Throws (Object type_error) \<and>
   snd (triggerRequest (default_options\<lparr>onError := Some (\<lambda>e. HookReturns)\<rparr>)
      (answering (FetchRejects type_error)) [user_hi] no_options empty_chat) = Fulfilled Undefined \<and>
   error (fst (triggerRequest (default_options\<lparr>onError := Some (\<lambda>e. HookReturns)\<rparr>)
      (answering (FetchRejects type_error)) [user_hi] no_options empty_chat)) = Some type_error \<and>
   reported (log (fst (triggerRequest (default_options\<lparr>onError := Some (\<lambda>e. HookReturns)\<rparr>)
      (answering (FetchRejects type_error)) [user_hi] no_options empty_chat))) = [type_error] \<and>
   snd (triggerRequest inspecting (streaming [ReadDone]) [user_hi] no_options empty_chat) =
     Fulfilled Undefined \<and>
   error (fst (triggerRequest inspecting (streaming [ReadDone]) [user_hi] no_options
      empty_chat)) = Some (Error ''unexpected response'')"
  using errors_surface [of "default_options\<lparr>onError := Some (\<lambda>e. HookReturns)\<rparr>"
      "answering (FetchRejects type_error)" "[user_hi]" no_options empty_chat type_error]
    errors_surface [of inspecting "streaming [ReadDone]" "[user_hi]" no_options empty_chat
      "Error ''unexpected response''"]
  by (simp add: run_defs inspecting_def)

text \<open>
  The claim as stated fails when the error hook throws, here by throwing the error it
  is given: the promise is rejected and the error signal stays empty.
\<close>

theorem errors_surface_counterexample:
  "snd (try_block rethrowing (answering (FetchRejects type_error)) [user_hi] no_options
      empty_chat) = Throws (Object type_error) \<and>
   err_name type_error = ''TypeError'' \<and>
   snd (triggerRequest rethrowing (answering (FetchRejects type_error)) [user_hi] no_options
      empty_chat) = Rejected (Object type_error) \<and>
   error (fst (triggerRequest rethrowing (answering (FetchRejects type_error)) [user_hi]
      no_options empty_chat)) = None"
  by (simp add: run_defs rethrowing_def)

subsection \<open>A response hook that throws\<close>

text \<open>
  C10, as amended. Let \<open>fetch\<close> resolve and \<open>onResponse\<close> throw \<open>x\<close>. The
  \<open>try\<close> block throws \<open>x\<close>, and the store is not reverted: the only write of the
  request is the optimistic one, and the store holds the submitted snapshot afterwards.
  The request fails with \<open>x\<close> (it becomes the error signal, and the promise is
  fulfilled with \<open>undefined\<close>) when \<open>x\<close> is a value other than \<open>null\<close> and
  \<open>undefined\<close>, is not named \<open>AbortError\<close>, and the error hook is absent or
  returns. When \<open>x\<close> is named \<open>AbortError\<close> it is taken for a cancellation: the
  promise is fulfilled with \<open>null\<close> and the error signal stays empty. When the error
  hook is called and throws, the promise is rejected with what it threw and the error
  signal stays empty.
\<close>

theorem onResponse_throws:
  assumes "fetch_result env = FetchResolves res" and "onResponse cfg = Some hook"
    and "hook res = HookThrows x"
  shows "snd (try_block cfg env snap options s) = Throws x \<and>
         store (fst (triggerRequest cfg env snap options s)) = Some snap \<and>
         cache (fst (triggerRequest cfg env snap options s)) = MutationSuccess snap \<and>
         mutations (log (fst (triggerRequest cfg env snap options s))) =
           mutations (log s) @ [snap] \<and>
         (\<forall>e. x = Object e \<longrightarrow> err_name e \<noteq> ''AbortError'' \<longrightarrow> error_hook_returns cfg e \<longrightarrow>
            error (fst (triggerRequest cfg env snap options s)) = Some e \<and>
            snd (triggerRequest cfg env snap options s) = Fulfilled Undefined) \<and>
         (\<forall>e. x = Object e \<longrightarrow> err_name e = ''AbortError'' \<longrightarrow>
            error (fst (triggerRequest cfg env snap options s)) = None \<and>
            snd (triggerRequest cfg env snap options s) = Fulfilled Null) \<and>
         (\<forall>e h y. x = Object e \<longrightarrow> err_name e \<noteq> ''AbortError'' \<longrightarrow> instanceof_Error e \<longrightarrow>
            onError cfg = Some h \<longrightarrow> h e = HookThrows y \<longrightarrow>
            error (fst (triggerRequest cfg env snap options s)) = None \<and>
            snd (triggerRequest cfg env snap options s) = Rejected y)"
proof -
  note path = try_block_hook_throws [OF assms, of snap options s]
  have surfaces: "error (fst (triggerRequest cfg env snap options s)) = Some e \<and>
      snd (triggerRequest cfg env snap options s) = Fulfilled Undefined"
    if "x = Object e" "err_name e \<noteq> ''AbortError''" "error_hook_returns cfg e" for e
    using triggerRequest_surfaces [of cfg env snap options s e] path that by simp
  have cancelled: "error (fst (triggerRequest cfg env snap options s)) = None \<and>
      snd (triggerRequest cfg env snap options s) = Fulfilled Null"
    if "x = Object e" "err_name e = ''AbortError''" for e
    using triggerRequest_cancelled [of cfg env snap options s e] path that by simp
  have rejected: "error (fst (triggerRequest cfg env snap options s)) = None \<and>
      snd (triggerRequest cfg env snap options s) = Rejected y"
    if "x = Object e" "err_name e \<noteq> ''AbortError''" "instanceof_Error e"
      "onError cfg = Some h" "h e = HookThrows y" for e h y
    using triggerRequest_hook_throws [of cfg env snap options s e h y] path that by simp
  show ?thesis
    using path surfaces cancelled rejected by (simp add: triggerRequest_frame)
qed

text \<open>
  A response hook that rejects every response, on the example of the specification.
\<close>

theorem onResponse_throws_witness:
  "snd (try_block inspecting (streaming [ReadChunk ''He'', ReadDone]) [user_hi] no_options
      empty_chat) = Throws (Object (Error ''unexpected response'')) \<and>
   cache empty_chat = MutationSuccess [] \<and>
   store (fst (triggerRequest inspecting (streaming [ReadChunk ''He'', ReadDone]) [user_hi]
      no_options empty_chat)) = Some [user_hi] \<and>
   error (fst (triggerRequest inspecting (streaming [ReadChunk ''He'', ReadDone]) [user_hi]
      no_options empty_chat)) = Some (Error ''unexpected response'') \<and>
   snd (triggerRequest inspecting (streaming [ReadChunk ''He'', ReadDone]) [user_hi]
      no_options empty_chat) = Fulfilled Undefined"
  using onResponse_throws [of "streaming [ReadChunk ''He'', ReadDone]"
      "\<lparr>res_ok = True, res_text = TextResolves [], res_body = Some [ReadChunk ''He'', ReadDone]\<rparr>"
      inspecting "\<lambda>res. HookThrows (Object (Error ''unexpected response''))"
      "Object (Error ''unexpected response'')" "[user_hi]" no_options empty_chat]
  by (simp add: run_defs inspecting_def)

text \<open>
  The claim as stated fails when what the response hook throws is named
  \<open>AbortError\<close>: the store keeps the snapshot, but the request does not fail with that
  error. The promise is fulfilled with \<open>null\<close> and the error signal stays empty.
\<close>

theorem onResponse_throws_counterexample:
  "snd (try_block aborting (streaming [ReadChunk ''He'', ReadDone]) [user_hi] no_options
      empty_chat) = Throws (Object abort_error) \<and>
   store (fst (triggerRequest aborting (streaming [ReadChunk ''He'', ReadDone]) [user_hi]
      no_options empty_chat)) = Some [user_hi] \<and>
   snd (triggerRequest aborting (streaming [ReadChunk ''He'', ReadDone]) [user_hi] no_options
      empty_chat) = Fulfilled Null \<and>
   error (fst (triggerRequest aborting (streaming [ReadChunk ''He'', ReadDone]) [user_hi]
      no_options empty_chat)) = None"
  by (simp add: run_defs aborting_def)

end
